theory Spec2Isabelle
  imports Main "HOL-Library.Word"
begin

section \<open>JavaScript values used by server.js\<close>

text \<open>
  A JavaScript string is a sequence of UTF-16 code units.  String literals of the source
  are ASCII and are written \<open>js ''...''\<close>.
\<close>

type_synonym code_unit = "16 word"
type_synonym jsstring = "code_unit list"

definition js :: "string \<Rightarrow> jsstring" where
  "js s = map of_char s"

text \<open>
  The Number values this program computes with: integers, the two infinities and NaN.
  (\<open>-0\<close> is identified with \<open>0\<close>: both are falsy and both are \<open>=== 0\<close>.)
\<close>

datatype jsnum = Num int | Infinity | NegInfinity | NaN

text \<open>Truthiness of a Number and of a string-or-null, and the operator \<open>||\<close>.\<close>

definition falsy_num :: "jsnum \<Rightarrow> bool" where
  "falsy_num x = (x = Num 0 \<or> x = NaN)"

definition falsy_str :: "jsstring option \<Rightarrow> bool" where
  "falsy_str x = (x = None \<or> x = Some [])"

definition num_or :: "jsnum \<Rightarrow> jsnum \<Rightarrow> jsnum" where
  "num_or x d = (if falsy_num x then d else x)"

definition str_or_null :: "jsstring option \<Rightarrow> jsstring option" where
  "str_or_null x = (if falsy_str x then None else x)"

subsection \<open>Character classes of the regular expressions\<close>

text \<open>\<open>\d\<close> is \<open>[0-9]\<close>; \<open>\w\<close> is \<open>[A-Za-z0-9_]\<close>.\<close>

definition is_digit :: "code_unit \<Rightarrow> bool" where
  "is_digit c = (48 \<le> c \<and> c \<le> 57)"

definition is_word :: "code_unit \<Rightarrow> bool" where
  "is_word c = (is_digit c \<or> (65 \<le> c \<and> c \<le> 90) \<or> (97 \<le> c \<and> c \<le> 122) \<or> c = 95)"

text \<open>
  \<open>\s\<close> and \<open>String.prototype.trim\<close> use the same set, WhiteSpace and LineTerminator:
  U+0009..U+000D, U+0020, U+00A0, U+1680, U+2000..U+200A, U+2028, U+2029, U+202F,
  U+205F, U+3000, U+FEFF.
\<close>

definition is_space :: "code_unit \<Rightarrow> bool" where
  "is_space c =
     ((9 \<le> c \<and> c \<le> 13) \<or> c = 32 \<or> c = 160 \<or> c = 5760 \<or> (8192 \<le> c \<and> c \<le> 8202) \<or>
      c = 8232 \<or> c = 8233 \<or> c = 8239 \<or> c = 8287 \<or> c = 12288 \<or> c = 65279)"

definition trim :: "jsstring \<Rightarrow> jsstring" where
  "trim s = rev (dropWhile is_space (rev (dropWhile is_space s)))"

fun starts_with :: "jsstring \<Rightarrow> jsstring \<Rightarrow> bool" where
  "starts_with s [] = True"
| "starts_with [] (p # ps) = False"
| "starts_with (c # cs) (p # ps) = (c = p \<and> starts_with cs ps)"

text \<open>\<open>String.prototype.includes\<close>: the argument occurs at some position.\<close>

fun includes_js :: "jsstring \<Rightarrow> jsstring \<Rightarrow> bool" where
  "includes_js [] sub = (sub = [])"
| "includes_js (c # cs) sub = (starts_with (c # cs) sub \<or> includes_js cs sub)"

subsection \<open>Conversion of an integer to a Number\<close>

fun bit_length :: "nat \<Rightarrow> nat" where
  "bit_length n = (if n = 0 then 0 else Suc (bit_length (n div 2)))"

declare bit_length.simps [simp del]

text \<open>
  A Number is an IEEE-754 double: an integer below \<open>2^53\<close> is represented exactly, a larger
  one is rounded to 53 significant bits, to nearest with ties to even, and a rounded value
  of \<open>2^1024\<close> or more is \<open>Infinity\<close>.
\<close>

definition to_double :: "nat \<Rightarrow> jsnum" where
  "to_double n =
     (if n < 2 ^ 53 then Num (int n)
      else
        let e = bit_length n - 53;
            q = n div 2 ^ e;
            r = n mod 2 ^ e;
            h = 2 ^ (e - 1);
            q' = (if h < r \<or> (r = h \<and> odd q) then q + 1 else q)
        in if 2 ^ 1024 \<le> q' * 2 ^ e then Infinity else Num (int (q' * 2 ^ e)))"

definition negate :: "jsnum \<Rightarrow> jsnum" where
  "negate x = (case x of Num i \<Rightarrow> Num (- i) | Infinity \<Rightarrow> NegInfinity
                 | NegInfinity \<Rightarrow> Infinity | NaN \<Rightarrow> NaN)"

subsection \<open>The built-in \<open>parseInt\<close> with one argument\<close>

definition digit_value :: "code_unit \<Rightarrow> nat" where
  "digit_value c = unat c - 48"

definition is_hex_digit :: "code_unit \<Rightarrow> bool" where
  "is_hex_digit c = (is_digit c \<or> (65 \<le> c \<and> c \<le> 70) \<or> (97 \<le> c \<and> c \<le> 102))"

definition hex_value :: "code_unit \<Rightarrow> nat" where
  "hex_value c =
     (if is_digit c then unat c - 48 else if c \<le> 70 then unat c - 55 else unat c - 87)"

definition parse_digits :: "jsstring \<Rightarrow> nat" where
  "parse_digits ds = foldl (\<lambda>acc c. 10 * acc + digit_value c) 0 ds"

definition parse_hex_digits :: "jsstring \<Rightarrow> nat" where
  "parse_hex_digits ds = foldl (\<lambda>acc c. 16 * acc + hex_value c) 0 ds"

text \<open>
  \<open>parseInt(string)\<close>: leading white space is skipped, a sign is read, a prefix \<open>0x\<close> or
  \<open>0X\<close> selects radix 16, and the longest run of digits of the radix is converted; no digit
  gives NaN.
\<close>

definition parseInt :: "jsstring \<Rightarrow> jsnum" where
  "parseInt input =
     (let s = dropWhile is_space input;
          negative = starts_with s (js ''-'');
          s1 = (if starts_with s (js ''-'') \<or> starts_with s (js ''+'') then tl s else s);
          hex = (starts_with s1 (js ''0x'') \<or> starts_with s1 (js ''0X''));
          z = (if hex then takeWhile is_hex_digit (drop 2 s1) else takeWhile is_digit s1);
          magnitude = to_double (if hex then parse_hex_digits z else parse_digits z)
      in if z = [] then NaN else if negative then negate magnitude else magnitude)"

section \<open>Text coercion utilities\<close>

text \<open>
  \<^verbatim>\<open>function parseNumber(text) {
    if (!text) return 0;
    const cleaned = text.replace(/[^\d]/g, '');
    return parseInt(cleaned) || 0;
  }\<close>
  The argument is a string or null.
\<close>

definition parseNumber :: "jsstring option \<Rightarrow> jsnum" where
  "parseNumber text =
     (case text of
        None \<Rightarrow> Num 0
      | Some t \<Rightarrow>
          if t = [] then Num 0
          else let cleaned = filter is_digit t in num_or (parseInt cleaned) (Num 0))"

text \<open>
  The integer that a string of decimal digits denotes, by position: the \<open>i\<close>-th of \<open>n\<close>
  digits counts \<open>10 ^ (n - 1 - i)\<close> times.
\<close>

definition decimal_of :: "jsstring \<Rightarrow> nat" where
  "decimal_of ds = (\<Sum>i < length ds. digit_value (ds ! i) * 10 ^ (length ds - Suc i))"

text \<open>
  \<^verbatim>\<open>function parseDate(text) {
    if (!text) return null;
    let cleanedText = text.trim();
    cleanedText = cleanedText.replace(/^(Joined on|Member since):?\s*/i, '').trim();
    return cleanedText;
  }\<close>

  Under the flag \<open>i\<close> (without \<open>u\<close>) two code units match when their canonical forms agree;
  the canonical form is the upper-case form, except that a non-ASCII unit is never mapped
  to an ASCII one.  The pattern is ASCII, so only the canonical form of ASCII units
  decides a match, and the model leaves every other unit as it is.
\<close>

definition canonicalize :: "code_unit \<Rightarrow> code_unit" where
  "canonicalize c = (if 97 \<le> c \<and> c \<le> 122 then c - 32 else c)"

fun starts_with_i :: "jsstring \<Rightarrow> jsstring \<Rightarrow> bool" where
  "starts_with_i s [] = True"
| "starts_with_i [] (p # ps) = False"
| "starts_with_i (c # cs) (p # ps) = (canonicalize c = canonicalize p \<and> starts_with_i cs ps)"

text \<open>
  \<open>s.replace(/^(Joined on|Member since):?\s*/i, '')\<close>: the alternatives are tried in
  order at position 0, then an optional colon and all following white space are taken.
\<close>

definition strip_date_prefix :: "jsstring \<Rightarrow> jsstring" where
  "strip_date_prefix s =
     (let matched =
            (if starts_with_i s (js ''Joined on'') then Some (length (js ''Joined on''))
             else if starts_with_i s (js ''Member since'') then Some (length (js ''Member since''))
             else None)
      in case matched of
           None \<Rightarrow> s
         | Some n \<Rightarrow>
             let r = drop n s;
                 r1 = (if starts_with r (js '':'') then tl r else r)
             in dropWhile is_space r1)"

definition parseDate :: "jsstring option \<Rightarrow> jsstring option" where
  "parseDate text =
     (case text of
        None \<Rightarrow> None
      | Some t \<Rightarrow>
          if t = [] then None
          else let cleanedText = trim t in Some (trim (strip_date_prefix cleanedText)))"

text \<open>
  Notions used to state what the coercions do: a string without white space at either
  end, a string of white space only, and equality of two strings up to letter case.
\<close>

definition trimmed :: "jsstring \<Rightarrow> bool" where
  "trimmed s = (s \<noteq> [] \<longrightarrow> \<not> is_space (hd s) \<and> \<not> is_space (last s))"

definition all_space :: "jsstring \<Rightarrow> bool" where
  "all_space s = (\<forall>c \<in> set s. is_space c)"

definition ci_equal :: "jsstring \<Rightarrow> jsstring \<Rightarrow> bool" where
  "ci_equal a b = (map canonicalize a = map canonicalize b)"

section \<open>The rendered page\<close>

text \<open>
  What the in-page script of \<open>scrapeCode360Puppeteer\<close> reads from the document: the answer
  of each \<open>querySelector\<close> is the \<open>textContent\<close> of the element found, or \<open>None\<close> when no
  element matches.  The answers are independent inputs of the model.
\<close>

record dom =
  title :: jsstring
  location_href :: jsstring
  body_text :: jsstring
  total_element :: "jsstring option"
  difficulty_elements :: "(jsstring option \<times> jsstring option) list"
  streak_container :: "(jsstring option \<times> jsstring option \<times> jsstring option) option"
  member_since_element :: "jsstring option"
  joined_date_text_element :: "jsstring option"
  join_date_element :: "jsstring option"
  xp_points_element :: "jsstring option"
  div_elements :: "jsstring list"

text \<open>
  \<open>difficulty_elements\<close>: for each \<open>.difficulty-wise .difficulty\<close> element, its \<open>.value\<close>
  and its \<open>.title\<close>.  \<open>streak_container\<close>: for \<open>.current-and-longest-text-container\<close>, its
  three \<open>.day-count-text p\<close> elements.  \<open>div_elements\<close>: every \<open>div\<close>, in document order.
\<close>

datatype js_error = JsError (message: jsstring)

text \<open>
  A page as the browser session presents it: the error, if any, that each awaited call
  rejects with, and the document that the in-page scripts see.
\<close>

record page =
  launch_outcome :: "js_error option"
  goto_outcome :: "js_error option"
  wait_problems_solved :: "js_error option"
  wait_streak :: "js_error option"
  wait_xp_points :: "js_error option"
  document :: dom

datatype warning = XpTimedOut | CoreContainersTimeout | NoStatisticsFound jsstring

datatype event =
    LaunchBrowser
  | Goto jsstring
  | WaitForSelector jsstring nat
  | CheckProfileExists
  | ExtractStats
  | CloseBrowser
  | ConsoleWarn warning
  | ConsoleError
  | CacheGet jsstring
  | CacheSet jsstring
  | ScrapeCode360 jsstring

section \<open>Page extractor\<close>

record raw_stats =
  totalSolved :: jsstring
  easySolved :: jsstring
  moderateSolved :: jsstring
  hardSolved :: jsstring
  ninjaSolved :: jsstring
  currentStreak :: jsstring
  longestStreak :: jsstring
  streakFreezeLeft :: jsstring
  joinedDate :: "jsstring option"
  expcount :: jsstring
  badge :: "jsstring option"
  pageTitle :: jsstring
  url :: jsstring
  pageContent :: jsstring

text \<open>
  \<open>toLowerCase\<close>, for comparison with ASCII keywords: exact on ASCII and on the two
  non-ASCII units whose lower-case form contains an ASCII unit (U+212A KELVIN SIGN gives
  \<open>k\<close>, U+0130 gives \<open>i\<close> followed by U+0307).  Every other non-ASCII unit has a non-ASCII
  lower-case form and is left as it is.
\<close>

definition lower_unit :: "code_unit \<Rightarrow> jsstring" where
  "lower_unit c =
     (if 65 \<le> c \<and> c \<le> 90 then [c + 32]
      else if c = 8490 then [107]
      else if c = 304 then [105, 775]
      else [c])"

definition toLowerCase :: "jsstring \<Rightarrow> jsstring" where
  "toLowerCase s = concat (map lower_unit s)"

text \<open>\<open>text.match(/\d+/)\<close>: the first maximal run of digits, if there is a digit.\<close>

definition match_digits :: "jsstring \<Rightarrow> jsstring option" where
  "match_digits s =
     (let r = dropWhile (\<lambda>c. \<not> is_digit c) s
      in if r = [] then None else Some (takeWhile is_digit r))"

text \<open>\<open>text.match(/^\d+\s+\w+/)\<close>, as a truth value.\<close>

definition match_number_word :: "jsstring \<Rightarrow> bool" where
  "match_number_word s =
     (let ds = takeWhile is_digit s;
          r = dropWhile is_digit s;
          ws = takeWhile is_space r;
          r1 = dropWhile is_space r
      in ds \<noteq> [] \<and> ws \<noteq> [] \<and> r1 \<noteq> [] \<and> is_word (hd r1))"

definition badge_test :: "jsstring \<Rightarrow> bool" where
  "badge_test div_text =
     (let text = trim div_text
      in match_number_word text \<and>
         (includes_js (toLowerCase text) (js ''achiever'') \<or>
          includes_js (toLowerCase text) (js ''badge'') \<or>
          includes_js (toLowerCase text) (js ''rank'')))"

definition find_badge :: "jsstring list \<Rightarrow> jsstring option" where
  "find_badge badgeElements =
     (case find badge_test badgeElements of
        None \<Rightarrow> None
      | Some foundBadgeElement \<Rightarrow> Some (trim foundBadgeElement))"

text \<open>
  The two conditions of the badge scan, as the specification words them: the text begins
  with a number, white space and a word character; the text contains one of the keywords
  when letter case is ignored.
\<close>

definition number_then_word :: "jsstring \<Rightarrow> bool" where
  "number_then_word s =
     (\<exists>ds ws w rest. s = ds @ ws @ w # rest \<and> ds \<noteq> [] \<and> (\<forall>c \<in> set ds. is_digit c) \<and>
        ws \<noteq> [] \<and> all_space ws \<and> is_word w)"

definition contains_keyword :: "jsstring \<Rightarrow> bool" where
  "contains_keyword s =
     (\<exists>k a b. (k = js ''achiever'' \<or> k = js ''badge'' \<or> k = js ''rank'') \<and>
        toLowerCase s = a @ k @ b)"

definition initial_result :: "dom \<Rightarrow> raw_stats" where
  "initial_result d =
     \<lparr> totalSolved = js ''0'', easySolved = js ''0'', moderateSolved = js ''0'',
       hardSolved = js ''0'', ninjaSolved = js ''0'', currentStreak = js ''0'',
       longestStreak = js ''0'', streakFreezeLeft = js ''0'', joinedDate = None,
       expcount = js ''0'', badge = None, pageTitle = title d, url = location_href d,
       pageContent = take 1000 (body_text d) \<rparr>"

definition extract_total :: "dom \<Rightarrow> raw_stats \<Rightarrow> raw_stats" where
  "extract_total d result =
     (case total_element d of
        None \<Rightarrow> result
      | Some t \<Rightarrow>
          (case match_digits (trim t) of
             None \<Rightarrow> result
           | Some m \<Rightarrow> result\<lparr>totalSolved := m\<rparr>))"

fun set_difficulty :: "raw_stats \<Rightarrow> jsstring option \<times> jsstring option \<Rightarrow> raw_stats" where
  "set_difficulty result (Some v, Some t) =
     (let val = trim v;
          ttl = toLowerCase (trim t)
      in if ttl = js ''easy'' then result\<lparr>easySolved := val\<rparr>
         else if ttl = js ''moderate'' then result\<lparr>moderateSolved := val\<rparr>
         else if ttl = js ''hard'' then result\<lparr>hardSolved := val\<rparr>
         else if ttl = js ''ninja'' then result\<lparr>ninjaSolved := val\<rparr>
         else result)"
| "set_difficulty result _ = result"

definition extract_difficulty :: "dom \<Rightarrow> raw_stats \<Rightarrow> raw_stats" where
  "extract_difficulty d result = foldl set_difficulty result (difficulty_elements d)"

definition extract_streak :: "dom \<Rightarrow> raw_stats \<Rightarrow> raw_stats" where
  "extract_streak d result =
     (case streak_container d of
        None \<Rightarrow> result
      | Some (cur, lon, frz) \<Rightarrow>
          let r1 = (case cur of None \<Rightarrow> result | Some t \<Rightarrow> result\<lparr>currentStreak := trim t\<rparr>);
              r2 = (case lon of None \<Rightarrow> r1 | Some t \<Rightarrow> r1\<lparr>longestStreak := trim t\<rparr>)
          in (case frz of None \<Rightarrow> r2 | Some t \<Rightarrow> r2\<lparr>streakFreezeLeft := trim t\<rparr>))"

definition joined_date_element :: "dom \<Rightarrow> jsstring option" where
  "joined_date_element d =
     (case member_since_element d of
        Some t \<Rightarrow> Some t
      | None \<Rightarrow>
          (case joined_date_text_element d of
             Some t \<Rightarrow> Some t
           | None \<Rightarrow> join_date_element d))"

definition extract_joined :: "dom \<Rightarrow> raw_stats \<Rightarrow> raw_stats" where
  "extract_joined d result =
     (case joined_date_element d of
        None \<Rightarrow> result
      | Some t \<Rightarrow> result\<lparr>joinedDate := Some (trim t)\<rparr>)"

definition extract_xp :: "dom \<Rightarrow> raw_stats \<Rightarrow> raw_stats" where
  "extract_xp d result =
     (case xp_points_element d of
        None \<Rightarrow> result
      | Some t \<Rightarrow> result\<lparr>expcount := trim t\<rparr>)"

definition extract_badge :: "dom \<Rightarrow> raw_stats \<Rightarrow> raw_stats" where
  "extract_badge d result =
     (case find_badge (div_elements d) of
        None \<Rightarrow> result
      | Some b \<Rightarrow> result\<lparr>badge := Some b\<rparr>)"

text \<open>The second in-page script, in the order of the source.\<close>

definition extract_stats :: "dom \<Rightarrow> raw_stats" where
  "extract_stats d =
     extract_badge d (extract_xp d (extract_joined d (extract_streak d
       (extract_difficulty d (extract_total d (initial_result d))))))"

text \<open>The first in-page script: none of the three markers occurs in the body text.\<close>

definition profileExists :: "dom \<Rightarrow> bool" where
  "profileExists d =
     (\<not> includes_js (body_text d) (js ''Profile not found'') \<and>
      \<not> includes_js (body_text d) (js ''404'') \<and>
      \<not> includes_js (body_text d) (js ''User not found''))"

text \<open>The markers of a missing profile.\<close>

definition not_found_marker :: "jsstring \<Rightarrow> bool" where
  "not_found_marker m =
     (m = js ''Profile not found'' \<or> m = js ''404'' \<or> m = js ''User not found'')"

record stats =
  totalSolved :: jsnum
  easySolved :: jsnum
  moderateSolved :: jsnum
  hardSolved :: jsnum
  ninjaSolved :: jsnum
  currentStreak :: jsnum
  longestStreak :: jsnum
  streakFreezeLeft :: jsnum
  joinedDate :: "jsstring option"
  expcount :: jsnum
  badge :: "jsstring option"
  pageTitle :: jsstring
  url :: jsstring
  debug :: jsstring

text \<open>The object that \<open>scrapeCode360Puppeteer\<close> returns, built from the raw fields.\<close>

definition normalize :: "raw_stats \<Rightarrow> stats" where
  "normalize raw =
     \<lparr> totalSolved = parseNumber (Some (raw_stats.totalSolved raw)),
       easySolved = parseNumber (Some (raw_stats.easySolved raw)),
       moderateSolved = parseNumber (Some (raw_stats.moderateSolved raw)),
       hardSolved = parseNumber (Some (raw_stats.hardSolved raw)),
       ninjaSolved = parseNumber (Some (raw_stats.ninjaSolved raw)),
       currentStreak = parseNumber (Some (raw_stats.currentStreak raw)),
       longestStreak = parseNumber (Some (raw_stats.longestStreak raw)),
       streakFreezeLeft = parseNumber (Some (raw_stats.streakFreezeLeft raw)),
       joinedDate = parseDate (raw_stats.joinedDate raw),
       expcount = parseNumber (Some (raw_stats.expcount raw)),
       badge = raw_stats.badge raw,
       pageTitle = raw_stats.pageTitle raw,
       url = raw_stats.url raw,
       debug = pageContent raw \<rparr>"

definition profileUrl :: "jsstring \<Rightarrow> jsstring" where
  "profileUrl username = js ''https://www.naukri.com/code360/profile/'' @ username"

text \<open>
  The inner \<open>try\<close>/\<open>catch\<close> around the waits.  A rejection of one of the first two waits
  skips the remaining ones and reaches the handler, which warns and rethrows a new error
  only if the message contains \<open>timeout\<close>; any other rejection is dropped there.  The third
  wait has its own \<open>.catch\<close>, which only warns.  The result is the events and the error that
  leaves the block, if any.  \<open>WaitForSelector s t\<close> is the call with selector \<open>s\<close> and a timeout
  of \<open>t\<close> milliseconds.
\<close>

definition wait_rejected :: "event list \<Rightarrow> js_error \<Rightarrow> event list \<times> js_error option" where
  "wait_rejected evs e =
     (evs @ [ConsoleWarn CoreContainersTimeout],
      if includes_js (message e) (js ''timeout'')
      then Some (JsError (js ''Page element not found or timed out: '' @ message e))
      else None)"

definition layered_waits :: "page \<Rightarrow> event list \<times> js_error option" where
  "layered_waits p =
     (case wait_problems_solved p of
        Some e \<Rightarrow> wait_rejected [WaitForSelector (js ''.problems-solved'') 20000] e
      | None \<Rightarrow>
          (case wait_streak p of
             Some e \<Rightarrow>
               wait_rejected
                 [WaitForSelector (js ''.problems-solved'') 20000,
                  WaitForSelector (js ''.current-and-longest-text-container'') 10000] e
           | None \<Rightarrow>
               ([WaitForSelector (js ''.problems-solved'') 20000,
                 WaitForSelector (js ''.current-and-longest-text-container'') 10000,
                 WaitForSelector (js ''.xp-points'') 5000] @
                (case wait_xp_points p of None \<Rightarrow> [] | Some e \<Rightarrow> [ConsoleWarn XpTimedOut]),
                None)))"

text \<open>
  \<open>scrapeCode360Puppeteer\<close>.  A thrown error is \<open>Inl\<close>.  The outer \<open>catch\<close> closes the browser
  if it was launched, logs and rethrows.  Calls on the page other than \<open>goto\<close> and the waits
  (and the in-page scripts) are taken to succeed.
\<close>

definition scrapeCode360Puppeteer :: "jsstring \<Rightarrow> page \<Rightarrow> event list \<times> (js_error + stats)" where
  "scrapeCode360Puppeteer username p =
     (case launch_outcome p of
        Some e \<Rightarrow> ([LaunchBrowser, ConsoleError], Inl e)
      | None \<Rightarrow>
          (case goto_outcome p of
             Some e \<Rightarrow>
               ([LaunchBrowser, Goto (profileUrl username), CloseBrowser, ConsoleError], Inl e)
           | None \<Rightarrow>
               (case layered_waits p of
                  (waits, Some e) \<Rightarrow>
                    ([LaunchBrowser, Goto (profileUrl username)] @ waits @
                     [CloseBrowser, ConsoleError], Inl e)
                | (waits, None) \<Rightarrow>
                    if \<not> profileExists (document p)
                    then ([LaunchBrowser, Goto (profileUrl username)] @ waits @
                          [CheckProfileExists, CloseBrowser, ConsoleError],
                          Inl (JsError (js ''Code360 profile not found'')))
                    else ([LaunchBrowser, Goto (profileUrl username)] @ waits @
                          [CheckProfileExists, ExtractStats, CloseBrowser],
                          Inr (normalize (extract_stats (document p)))))))"

section \<open>Profile fetcher\<close>

definition no_statistics :: "stats \<Rightarrow> bool" where
  "no_statistics st =
     (totalSolved st = Num 0 \<and> easySolved st = Num 0 \<and> moderateSolved st = Num 0 \<and>
      hardSolved st = Num 0 \<and> ninjaSolved st = Num 0 \<and> currentStreak st = Num 0 \<and>
      longestStreak st = Num 0 \<and> streakFreezeLeft st = Num 0 \<and> falsy_str (joinedDate st) \<and>
      expcount st = Num 0 \<and> falsy_str (badge st))"

definition scrapeCode360 :: "jsstring \<Rightarrow> page \<Rightarrow> event list \<times> (js_error + stats)" where
  "scrapeCode360 username p =
     (case scrapeCode360Puppeteer username p of
        (evs, Inl e) \<Rightarrow> (evs @ [ConsoleError], Inl e)
      | (evs, Inr st) \<Rightarrow>
          (evs @ (if no_statistics st then [ConsoleWarn (NoStatisticsFound username)] else []),
           Inr st))"

section \<open>Response formatter\<close>

record core_stats =
  totalSolved :: jsnum
  easySolved :: jsnum
  mediumSolved :: jsnum
  hardSolved :: jsnum
  ninjaSolved :: jsnum
  currentStreak :: jsnum
  longestStreak :: jsnum
  streakFreezeLeft :: jsnum
  joinedDate :: "jsstring option"
  expcount :: jsnum
  badge :: "jsstring option"

definition formatCode360Data :: "stats \<Rightarrow> core_stats" where
  "formatCode360Data st =
     \<lparr> totalSolved = num_or (stats.totalSolved st) (Num 0),
       easySolved = num_or (stats.easySolved st) (Num 0),
       mediumSolved = num_or (moderateSolved st) (Num 0),
       hardSolved = num_or (stats.hardSolved st) (Num 0),
       ninjaSolved = num_or (stats.ninjaSolved st) (Num 0),
       currentStreak = num_or (stats.currentStreak st) (Num 0),
       longestStreak = num_or (stats.longestStreak st) (Num 0),
       streakFreezeLeft = num_or (stats.streakFreezeLeft st) (Num 0),
       joinedDate = str_or_null (stats.joinedDate st),
       expcount = num_or (stats.expcount st) (Num 0),
       badge = str_or_null (stats.badge st) \<rparr>"

text \<open>
  The response object of the profile route.  \<open>message_text\<close> is its field \<open>message\<close>;
  \<open>submissionCalendar\<close> is an object used as a mapping, here the list of its entries.
\<close>

record profile_response =
  status :: jsstring
  message_text :: jsstring
  username :: jsstring
  joinedDate :: "jsstring option"
  totalSolved :: jsnum
  totalQuestions :: jsnum
  easySolved :: jsnum
  totalEasy :: jsnum
  mediumSolved :: jsnum
  totalMedium :: jsnum
  hardSolved :: jsnum
  totalHard :: jsnum
  ninjaSolved :: jsnum
  acceptanceRate :: jsnum
  ranking :: jsnum
  contributionPoints :: jsnum
  reputation :: jsnum
  submissionCalendar :: "(jsstring \<times> jsnum) list"
  currentStreak :: jsnum
  longestStreak :: jsnum
  streakFreezeLeft :: jsnum
  expcount :: jsnum
  badge :: "jsstring option"

definition finalResponse :: "jsstring \<Rightarrow> core_stats \<Rightarrow> profile_response" where
  "finalResponse name formattedCoreStats =
     \<lparr> status = js ''success'',
       message_text = js ''retrieved'',
       username = name,
       joinedDate = core_stats.joinedDate formattedCoreStats,
       totalSolved = core_stats.totalSolved formattedCoreStats,
       totalQuestions = Num 0,
       easySolved = core_stats.easySolved formattedCoreStats,
       totalEasy = Num 0,
       mediumSolved = core_stats.mediumSolved formattedCoreStats,
       totalMedium = Num 0,
       hardSolved = core_stats.hardSolved formattedCoreStats,
       totalHard = Num 0,
       ninjaSolved = core_stats.ninjaSolved formattedCoreStats,
       acceptanceRate = Num 0,
       ranking = Num 0,
       contributionPoints = Num 0,
       reputation = Num 0,
       submissionCalendar = [],
       currentStreak = core_stats.currentStreak formattedCoreStats,
       longestStreak = core_stats.longestStreak formattedCoreStats,
       streakFreezeLeft = core_stats.streakFreezeLeft formattedCoreStats,
       expcount = core_stats.expcount formattedCoreStats,
       badge = core_stats.badge formattedCoreStats \<rparr>"

text \<open>The response in which every field has its default.\<close>

definition default_response :: "jsstring \<Rightarrow> profile_response" where
  "default_response name =
     \<lparr> status = js ''success'', message_text = js ''retrieved'', username = name,
       joinedDate = None, totalSolved = Num 0, totalQuestions = Num 0, easySolved = Num 0,
       totalEasy = Num 0, mediumSolved = Num 0, totalMedium = Num 0, hardSolved = Num 0,
       totalHard = Num 0, ninjaSolved = Num 0, acceptanceRate = Num 0, ranking = Num 0,
       contributionPoints = Num 0, reputation = Num 0, submissionCalendar = [],
       currentStreak = Num 0, longestStreak = Num 0, streakFreezeLeft = Num 0,
       expcount = Num 0, badge = None \<rparr>"

definition format_response :: "jsstring \<Rightarrow> stats \<Rightarrow> profile_response" where
  "format_response name rawStats = finalResponse name (formatCode360Data rawStats)"

section \<open>HTTP endpoints\<close>

record cache_entry =
  data :: profile_response
  timestamp :: int

type_synonym cache = "jsstring \<rightharpoonup> cache_entry"

definition CACHE_DURATION :: int where
  "CACHE_DURATION = 10 * 60 * 1000"

datatype json_body =
    ProfileBody profile_response
  | ErrorBody jsstring
  | FailureBody jsstring jsstring jsstring
  | MessageBody jsstring

text \<open>
  \<open>ErrorBody e\<close> is \<open>{error: e}\<close>, \<open>FailureBody s m d\<close> is \<open>{status: s, message: m, details: d}\<close>,
  \<open>MessageBody m\<close> is \<open>{message: m}\<close>.
\<close>

record http_response =
  status_code :: nat
  body :: json_body

definition cacheKey :: "jsstring \<Rightarrow> jsstring" where
  "cacheKey name = js ''code360_'' @ name"

text \<open>The \<open>catch\<close> block of the profile route.\<close>

definition error_response :: "js_error \<Rightarrow> http_response" where
  "error_response e =
     (if includes_js (message e) (js ''timeout'')
      then \<lparr> status_code = 408,
             body = ErrorBody (js ''Request timeout - Code360 profile took too long to load or element not found.'') \<rparr>
      else if includes_js (message e) (js ''not found'')
      then \<lparr> status_code = 404, body = ErrorBody (js ''Code360 profile not found'') \<rparr>
      else \<lparr> status_code = 500,
             body = FailureBody (js ''error'') (js ''Failed to scrape Code360 profile'') (message e) \<rparr>)"

text \<open>
  \<open>app.get('/api/code360/:username', ...)\<close>.  The arguments are the cache, the route
  parameter (\<open>None\<close> when absent), the clock at the cache lookup, the page that the browser
  session presents, and the clock when the entry is stored.  The result is the events, the
  cache afterwards and the response.  \<open>scrape_and_store\<close> is the part after the cache lookup.
\<close>

definition scrape_and_store ::
  "cache \<Rightarrow> jsstring \<Rightarrow> page \<Rightarrow> int \<Rightarrow> event list \<times> cache \<times> http_response" where
  "scrape_and_store c name p now' =
     (case scrapeCode360 name p of
        (evs, Inl e) \<Rightarrow>
          ([CacheGet (cacheKey name), ScrapeCode360 name] @ evs @ [ConsoleError],
           c, error_response e)
      | (evs, Inr rawStats) \<Rightarrow>
          ([CacheGet (cacheKey name), ScrapeCode360 name] @ evs @ [CacheSet (cacheKey name)],
           c(cacheKey name \<mapsto> \<lparr> data = format_response name rawStats, timestamp = now' \<rparr>),
           \<lparr> status_code = 200, body = ProfileBody (format_response name rawStats) \<rparr>))"

definition username_required :: http_response where
  "username_required = \<lparr> status_code = 400, body = ErrorBody (js ''Username is required'') \<rparr>"

definition get_code360 ::
  "cache \<Rightarrow> jsstring option \<Rightarrow> int \<Rightarrow> page \<Rightarrow> int \<Rightarrow> event list \<times> cache \<times> http_response" where
  "get_code360 c param now p now' =
     (case param of
        None \<Rightarrow> ([], c, username_required)
      | Some name \<Rightarrow>
          if name = [] then ([], c, username_required)
          else
            (case c (cacheKey name) of
               None \<Rightarrow> scrape_and_store c name p now'
             | Some cached \<Rightarrow>
                 if now - timestamp cached < CACHE_DURATION
                 then ([CacheGet (cacheKey name)], c,
                       \<lparr> status_code = 200, body = ProfileBody (data cached) \<rparr>)
                 else scrape_and_store c name p now'))"

text \<open>The cache lookup of the profile route finds no entry that is younger than the TTL.\<close>

definition cache_miss :: "cache \<Rightarrow> jsstring \<Rightarrow> int \<Rightarrow> bool" where
  "cache_miss c name now =
     (case c (cacheKey name) of
        None \<Rightarrow> True
      | Some entry \<Rightarrow> \<not> now - timestamp entry < CACHE_DURATION)"

text \<open>\<open>app.post('/api/cache/clear', ...)\<close>.\<close>

definition clear_cache :: "cache \<Rightarrow> cache \<times> http_response" where
  "clear_cache c =
     (Map.empty, \<lparr> status_code = 200, body = MessageBody (js ''Cache cleared successfully'') \<rparr>)"

section \<open>Example pages\<close>

text \<open>
  Two pages used as concrete inputs: one on which no locator finds anything, and the
  profile of the scenario of the specification (user \<open>Codushan\<close>).  \<open>loaded d\<close> is a session
  in which every awaited call succeeds and the scripts see \<open>d\<close>.
\<close>

definition loaded :: "dom \<Rightarrow> page" where
  "loaded d =
     \<lparr> launch_outcome = None, goto_outcome = None, wait_problems_solved = None,
       wait_streak = None, wait_xp_points = None, document = d \<rparr>"

definition blank_dom :: dom where
  "blank_dom =
     \<lparr> title = js ''Code360'', location_href = profileUrl (js ''nobody''),
       body_text = js ''Loading'', total_element = None, difficulty_elements = [],
       streak_container = None, member_since_element = None,
       joined_date_text_element = None, join_date_element = None,
       xp_points_element = None, div_elements = [] \<rparr>"

definition codushan_dom :: dom where
  "codushan_dom =
     \<lparr> title = js ''Codushan'', location_href = profileUrl (js ''Codushan''),
       body_text = js ''Codushan 120 solved'',
       total_element = Some (js '' 120 ''),
       difficulty_elements =
         [(Some (js ''50''), Some (js ''Easy'')), (Some (js ''40''), Some (js ''Moderate'')),
          (Some (js ''30''), Some (js ''Hard'')), (Some (js ''0''), Some (js ''Ninja''))],
       streak_container = Some (Some (js ''5''), Some (js ''12''), Some (js ''2'')),
       member_since_element = Some (js ''Joined on: Jan 2022''),
       joined_date_text_element = None, join_date_element = None,
       xp_points_element = Some (js ''3400 XP''),
       div_elements = [js ''Codushan'', js '' 5 Star Achiever '', js ''2 Gold Badge''] \<rparr>"

definition blank_stats :: stats where
  "blank_stats =
     \<lparr> stats.totalSolved = Num 0, stats.easySolved = Num 0, stats.moderateSolved = Num 0, stats.hardSolved = Num 0,
       stats.ninjaSolved = Num 0, stats.currentStreak = Num 0, stats.longestStreak = Num 0,
       stats.streakFreezeLeft = Num 0, stats.joinedDate = None, stats.expcount = Num 0, stats.badge = None,
       stats.pageTitle = js ''Code360'', stats.url = profileUrl (js ''nobody''), stats.debug = js ''Loading'' \<rparr>"

definition codushan_stats :: stats where
  "codushan_stats =
     \<lparr> stats.totalSolved = Num 120, stats.easySolved = Num 50, stats.moderateSolved = Num 40,
       stats.hardSolved = Num 30, stats.ninjaSolved = Num 0, stats.currentStreak = Num 5,
       stats.longestStreak = Num 12, stats.streakFreezeLeft = Num 2, stats.joinedDate = Some (js ''Jan 2022''),
       stats.expcount = Num 3400, stats.badge = Some (js ''5 Star Achiever''),
       stats.pageTitle = js ''Codushan'', stats.url = profileUrl (js ''Codushan''),
       stats.debug = js ''Codushan 120 solved'' \<rparr>"

definition codushan_response :: profile_response where
  "codushan_response =
     \<lparr> status = js ''success'', message_text = js ''retrieved'', username = js ''Codushan'',
       joinedDate = Some (js ''Jan 2022''), totalSolved = Num 120, totalQuestions = Num 0,
       easySolved = Num 50, totalEasy = Num 0, mediumSolved = Num 40, totalMedium = Num 0,
       hardSolved = Num 30, totalHard = Num 0, ninjaSolved = Num 0, acceptanceRate = Num 0,
       ranking = Num 0, contributionPoints = Num 0, reputation = Num 0,
       submissionCalendar = [], currentStreak = Num 5, longestStreak = Num 12,
       streakFreezeLeft = Num 2, expcount = Num 3400, badge = Some (js ''5 Star Achiever'') \<rparr>"

text \<open>A page of a missing profile, and pages on which a wait is rejected.\<close>

definition not_found_dom :: dom where
  "not_found_dom = blank_dom\<lparr>body_text := js ''Oops! User not found''\<rparr>"









definition slow_page :: page where
  "slow_page =
     (loaded blank_dom)\<lparr>wait_streak := Some (JsError (js ''timeout 10000ms exceeded''))\<rparr>"

text \<open>The cache after the first request for \<open>Codushan\<close>, stored at time 5000.\<close>

definition codushan_cache :: cache where
  "codushan_cache =
     Map.empty(cacheKey (js ''Codushan'') \<mapsto> \<lparr> data = codushan_response, timestamp = 5000 \<rparr>)"

section \<open>Numeric coercion\<close>

lemma js_Nil_iff [simp]: "js s = [] \<longleftrightarrow> s = []"
  by (simp add: js_def)

lemma parse_digits_snoc: "parse_digits (ds @ [c]) = 10 * parse_digits ds + digit_value c"
  by (simp add: parse_digits_def)

lemma decimal_of_snoc: "decimal_of (ds @ [c]) = 10 * decimal_of ds + digit_value c"
proof -
  have "decimal_of (ds @ [c]) =
      (\<Sum>i < length ds. digit_value ((ds @ [c]) ! i) * 10 ^ (length ds - i)) + digit_value c"
    by (simp add: decimal_of_def)
  also have "(\<Sum>i < length ds. digit_value ((ds @ [c]) ! i) * 10 ^ (length ds - i)) =
      (\<Sum>i < length ds. 10 * (digit_value (ds ! i) * 10 ^ (length ds - Suc i)))"
  proof (rule sum.cong)
    fix i assume "i \<in> {..<length ds}"
    then have i: "i < length ds" by simp
    then have "length ds - i = Suc (length ds - Suc i)" by simp
    then show "digit_value ((ds @ [c]) ! i) * 10 ^ (length ds - i) =
        10 * (digit_value (ds ! i) * 10 ^ (length ds - Suc i))"
      using i by (simp add: nth_append)
  qed simp
  also have "\<dots> = 10 * decimal_of ds"
    by (simp add: decimal_of_def sum_distrib_left)
  finally show ?thesis .
qed

text \<open>The digit loop of \<open>parseInt\<close> computes the positional value.\<close>

lemma parse_digits_decimal: "parse_digits ds = decimal_of ds"
proof (induction ds rule: rev_induct)
  case Nil
  show ?case by (simp add: parse_digits_def decimal_of_def)
next
  case (snoc c ds)
  then show ?case by (simp add: parse_digits_snoc decimal_of_snoc)
qed

lemma not_space_digit: "is_digit c \<Longrightarrow> \<not> is_space c"
  unfolding is_digit_def is_space_def
  by (auto simp: word_le_nat_alt)

lemma parseInt_digits:
  assumes "\<forall>c \<in> set ds. is_digit c" "ds \<noteq> []"
  shows "parseInt ds = to_double (decimal_of ds)"
proof -
  obtain c cs where ds: "ds = c # cs" using assms(2) by (cases ds) auto
  have c: "is_digit c" using assms(1) ds by simp
  have sp: "dropWhile is_space ds = ds" using c ds not_space_digit by simp
  have sg: "\<not> starts_with ds (js ''-'')" "\<not> starts_with ds (js ''+'')"
    using c ds unfolding is_digit_def js_def by auto
  have hx: "\<not> starts_with ds (js ''0x'')" "\<not> starts_with ds (js ''0X'')"
    using assms(1) ds unfolding is_digit_def js_def by (cases cs; auto)+
  have tw: "takeWhile is_digit ds = ds" using assms(1) by simp
  show ?thesis
    unfolding parseInt_def Let_def
    by (simp only: sp sg hx tw assms(2) parse_digits_decimal if_False simp_thms)
qed

lemma filter_digits_all: "\<forall>c \<in> set (filter is_digit t). is_digit c"
  by simp

lemma parseNumber_cleaned:
  "parseNumber (Some t) =
     (if filter is_digit t = [] then Num 0
      else num_or (to_double (decimal_of (filter is_digit t))) (Num 0))"
proof (cases "filter is_digit t = []")
  case True
  then have "parseInt (filter is_digit t) = NaN"
    by (simp add: parseInt_def js_def)
  then show ?thesis using True
    by (simp add: parseNumber_def num_or_def falsy_num_def)
next
  case False
  then have "t \<noteq> []" by auto
  then show ?thesis using False parseInt_digits [OF filter_digits_all False]
    by (simp add: parseNumber_def)
qed

lemma to_double_exact: "n < 2 ^ 53 \<Longrightarrow> to_double n = Num (int n)"
  by (simp add: to_double_def)

lemma to_double_range: "(\<exists>k. to_double n = Num (int k)) \<or> to_double n = Infinity"
proof (cases "n < 2 ^ 53")
  case True
  then have "to_double n = Num (int n)" by (simp add: to_double_def)
  then show ?thesis by blast
next
  case False
  define m where "m = (let e = bit_length n - 53; q = n div 2 ^ e; r = n mod 2 ^ e;
      h = 2 ^ (e - 1); q' = (if h < r \<or> (r = h \<and> odd q) then q + 1 else q) in q' * 2 ^ e)"
  have "to_double n = (if 2 ^ 1024 \<le> m then Infinity else Num (int m))"
    using False unfolding to_double_def m_def Let_def by (simp only: if_False)
  then show ?thesis by (cases "2 ^ 1024 \<le> m") auto
qed

lemma num_or_zero_range:
  assumes "(\<exists>k. x = Num (int k)) \<or> x = Infinity"
  shows "(\<exists>k. num_or x (Num 0) = Num (int k)) \<or> num_or x (Num 0) = Infinity"
proof (cases "falsy_num x")
  case True
  then have "num_or x (Num 0) = Num (int 0)" by (simp add: num_or_def)
  then show ?thesis by blast
next
  case False
  then show ?thesis using assms by (simp add: num_or_def)
qed

lemma parseNumber_range:
  "(\<exists>k. parseNumber x = Num (int k)) \<or> parseNumber x = Infinity"
proof (cases x)
  case None
  then have "parseNumber x = Num (int 0)" by (simp add: parseNumber_def)
  then show ?thesis by blast
next
  case (Some t)
  show ?thesis
  proof (cases "filter is_digit t = []")
    case True
    then have "parseNumber x = Num (int 0)" using Some by (simp add: parseNumber_cleaned)
    then show ?thesis by blast
  next
    case False
    then show ?thesis using Some num_or_zero_range [OF to_double_range]
      by (simp add: parseNumber_cleaned)
  qed
qed

lemma parseNumber_small:
  assumes "decimal_of (filter is_digit t) < 2 ^ 53"
  shows "parseNumber (Some t) = Num (int (decimal_of (filter is_digit t)))"
proof (cases "filter is_digit t = []")
  case True
  then show ?thesis by (simp add: parseNumber_cleaned decimal_of_def)
next
  case False
  then show ?thesis using to_double_exact [OF assms]
    by (simp add: parseNumber_cleaned num_or_def falsy_num_def)
qed

lemma parseNumber_no_digit: "filter is_digit t = [] \<Longrightarrow> parseNumber (Some t) = Num 0"
  by (simp add: parseNumber_cleaned)

lemmas digits_eval = js_def is_digit_def parse_digits_decimal [symmetric] parse_digits_def
  digit_value_def

lemma bit_length_2_53_1: "bit_length 9007199254740993 = 54"
  by (simp add: bit_length.simps)

lemma to_double_2_53_1: "to_double 9007199254740993 = Num 9007199254740992"
  by (simp add: to_double_def bit_length_2_53_1 Let_def)

text \<open>
  C1, as stated, fails: the digits of \<open>9007199254740993\<close> (\<open>2^53 + 1\<close>) denote an integer
  that no Number represents, and \<open>parseNumber\<close> returns \<open>9007199254740992\<close>.
\<close>

theorem parseNumber_not_exact:
  "decimal_of (filter is_digit (js ''9007199254740993'')) = 9007199254740993 \<and>
   parseNumber (Some (js ''9007199254740993'')) = Num 9007199254740992"
proof -
  have f: "filter is_digit (js ''9007199254740993'') = js ''9007199254740993''"
    by (simp add: js_def is_digit_def)
  have d: "decimal_of (js ''9007199254740993'') = 9007199254740993"
    by (simp add: digits_eval)
  show ?thesis
    by (simp add: parseNumber_cleaned f d to_double_2_53_1 num_or_def falsy_num_def)
qed

text \<open>
  C1, amended.  \<open>parseNumber\<close> is total; null, the empty string and a string without a
  digit give 0; when the digits of the input, in order, denote an integer below \<open>2^53\<close>
  the result is that integer; every result is a non-negative integer or \<open>Infinity\<close>.  In
  particular \<open>"1,234"\<close> gives 1234, \<open>""\<close>, \<open>"abc"\<close> and null give 0, and \<open>"-5"\<close> gives 5.
\<close>

theorem parseNumber_coercion:
  "parseNumber None = Num 0 \<and>
   parseNumber (Some []) = Num 0 \<and>
   (filter is_digit t = [] \<longrightarrow> parseNumber (Some t) = Num 0) \<and>
   (decimal_of (filter is_digit t) < 2 ^ 53 \<longrightarrow>
      parseNumber (Some t) = Num (int (decimal_of (filter is_digit t)))) \<and>
   ((\<exists>k. parseNumber x = Num (int k)) \<or> parseNumber x = Infinity) \<and>
   parseNumber (Some (js ''1,234'')) = Num 1234 \<and>
   parseNumber (Some (js '''')) = Num 0 \<and>
   parseNumber (Some (js ''abc'')) = Num 0 \<and>
   parseNumber (Some (js ''-5'')) = Num 5"
proof -
  have e1: "parseNumber (Some (js ''1,234'')) = Num 1234"
    using parseNumber_small [of "js ''1,234''"] by (simp add: digits_eval)
  have e2: "parseNumber (Some (js ''abc'')) = Num 0"
    by (rule parseNumber_no_digit) (simp add: js_def is_digit_def)
  have e3: "parseNumber (Some (js ''-5'')) = Num 5"
    using parseNumber_small [of "js ''-5''"] by (simp add: digits_eval)
  show ?thesis
    using e1 e2 e3 parseNumber_range [of x] parseNumber_small [of t] parseNumber_no_digit [of t]
    by (simp add: parseNumber_def)
qed

theorem parseNumber_coercion_witness:
  "filter is_digit (js ''n/a'') = [] \<and> parseNumber (Some (js ''n/a'')) = Num 0 \<and>
   decimal_of (filter is_digit (js ''1,234 pts'')) < 2 ^ 53 \<and>
   parseNumber (Some (js ''1,234 pts'')) = Num 1234"
proof -
  have a: "filter is_digit (js ''n/a'') = []"
    by (simp add: js_def is_digit_def)
  have b: "decimal_of (filter is_digit (js ''1,234 pts'')) = 1234"
    by (simp add: digits_eval)
  show ?thesis
    using a b parseNumber_coercion [of "js ''n/a''" None]
      parseNumber_coercion [of "js ''1,234 pts''" None]
    by simp
qed

section \<open>Date coercion\<close>

lemma last_dropWhile: "dropWhile P xs \<noteq> [] \<Longrightarrow> last (dropWhile P xs) = last xs"
  by (metis last_appendR takeWhile_dropWhile_id)

lemma trimmed_trim: "trimmed (trim t)"
proof -
  define u where "u = dropWhile is_space t"
  define v where "v = dropWhile is_space (rev u)"
  have tr: "trim t = rev v" by (simp add: trim_def u_def v_def)
  show ?thesis
  proof (cases "v = []")
    case True
    then show ?thesis by (simp add: tr trimmed_def)
  next
    case False
    then have "u \<noteq> []" by (auto simp: v_def)
    then have hu: "\<not> is_space (hd u)" unfolding u_def by (rule hd_dropWhile)
    have hv: "\<not> is_space (hd v)" using False unfolding v_def by (rule hd_dropWhile)
    have "last v = last (rev u)" using False unfolding v_def by (rule last_dropWhile)
    then have lv: "last v = hd u" using \<open>u \<noteq> []\<close> by (simp add: last_rev)
    show ?thesis using False hu hv lv by (simp add: tr trimmed_def hd_rev last_rev)
  qed
qed

lemma trim_trimmed: "trimmed s \<Longrightarrow> trim s = s"
proof (cases "s = []")
  case True
  then show ?thesis by (simp add: trim_def)
next
  case False
  assume "trimmed s"
  then have h: "\<not> is_space (hd s)" and l: "\<not> is_space (last s)"
    using False by (simp_all add: trimmed_def)
  have 1: "dropWhile is_space s = s" using False h by (cases s) auto
  have 2: "dropWhile is_space (rev s) = rev s" using False l by (cases "rev s") (auto simp: last_rev [symmetric])
  show ?thesis by (simp add: trim_def 1 2)
qed

lemma trim_split:
  "\<exists>l r. t = l @ trim t @ r \<and> all_space l \<and> all_space r"
proof -
  define u where "u = dropWhile is_space t"
  have 1: "t = takeWhile is_space t @ u" by (simp add: u_def)
  have "rev u = takeWhile is_space (rev u) @ dropWhile is_space (rev u)" by simp
  then have "u = rev (dropWhile is_space (rev u)) @ rev (takeWhile is_space (rev u))"
    by (metis rev_append rev_rev_ident)
  then have 2: "u = trim t @ rev (takeWhile is_space (rev u))" by (simp add: trim_def u_def)
  have 3: "all_space (takeWhile is_space t)"
    unfolding all_space_def by (auto dest: set_takeWhileD)
  have 4: "all_space (rev (takeWhile is_space (rev u)))"
    unfolding all_space_def by (auto dest: set_takeWhileD)
  from 1 2 have "t = takeWhile is_space t @ trim t @ rev (takeWhile is_space (rev u))" by simp
  then show ?thesis using 3 4 by blast
qed

lemma starts_with_i_iff:
  "starts_with_i s p \<longleftrightarrow> length p \<le> length s \<and> ci_equal (take (length p) s) p"
  by (induction s p rule: starts_with_i.induct) (auto simp: ci_equal_def)

lemma starts_with_iff: "starts_with s p \<longleftrightarrow> length p \<le> length s \<and> take (length p) s = p"
  by (induction s p rule: starts_with.induct) auto

lemma ci_equal_length: "ci_equal a b \<Longrightarrow> length a = length b"
  unfolding ci_equal_def by (metis length_map)

lemma starts_with_i_append: "ci_equal pre p \<Longrightarrow> starts_with_i (pre @ rest) p"
  by (simp add: starts_with_i_iff ci_equal_length)

lemma joined_not_member:
  "ci_equal pre (js ''Member since'') \<Longrightarrow> \<not> starts_with_i (pre @ rest) (js ''Joined on'')"
proof -
  assume a: "ci_equal pre (js ''Member since'')"
  then have "length pre = 12" by (auto dest: ci_equal_length simp: js_def)
  then obtain c cs where pre: "pre = c # cs" by (cases pre) auto
  then have "canonicalize c = 77" using a by (simp add: ci_equal_def js_def canonicalize_def)
  then show ?thesis using pre by (simp add: js_def canonicalize_def)
qed

text \<open>What the replacement leaves of a string that begins with one of the two prefixes.\<close>

lemma strip_date_prefix_matched:
  assumes p: "p = js ''Joined on'' \<or> p = js ''Member since''" and eq: "ci_equal pre p"
  shows "\<exists>colon ws. rest = colon @ ws @ strip_date_prefix (pre @ rest) \<and>
           (colon = [] \<or> colon = js '':'') \<and> all_space ws \<and>
           (colon = [] \<longrightarrow> \<not> starts_with rest (js '':'')) \<and>
           (strip_date_prefix (pre @ rest) \<noteq> [] \<longrightarrow> \<not> is_space (hd (strip_date_prefix (pre @ rest))))"
proof -
  define r1 where "r1 = (if starts_with rest (js '':'') then tl rest else rest)"
  have len: "length pre = length p" using eq by (rule ci_equal_length)
  have m: "starts_with_i (pre @ rest) p" using eq by (rule starts_with_i_append)
  have "strip_date_prefix (pre @ rest) = dropWhile is_space r1"
  proof (cases "p = js ''Joined on''")
    case True
    then show ?thesis using m len
      by (simp add: strip_date_prefix_def r1_def Let_def)
  next
    case False
    then have pm: "p = js ''Member since''" using p by simp
    then have "\<not> starts_with_i (pre @ rest) (js ''Joined on'')"
      using eq joined_not_member by simp
    then show ?thesis using m len pm
      by (simp add: strip_date_prefix_def r1_def Let_def)
  qed
  note res = this
  define colon where "colon = (if starts_with rest (js '':'') then js '':'' else [])"
  have c1: "rest = colon @ r1"
    unfolding colon_def r1_def by (cases rest) (auto simp: js_def)
  have c2: "r1 = takeWhile is_space r1 @ dropWhile is_space r1" by simp
  have c3: "all_space (takeWhile is_space r1)"
    unfolding all_space_def by (auto dest: set_takeWhileD)
  have c4: "dropWhile is_space r1 \<noteq> [] \<longrightarrow> \<not> is_space (hd (dropWhile is_space r1))"
    by (simp add: hd_dropWhile)
  have c5: "colon = [] \<longrightarrow> \<not> starts_with rest (js '':'')"
    by (simp add: colon_def js_def)
  have c6: "colon = [] \<or> colon = js '':''" by (simp add: colon_def)
  have "rest = colon @ takeWhile is_space r1 @ strip_date_prefix (pre @ rest)"
    using c1 c2 res by simp
  then show ?thesis using c3 c4 c5 c6 res by metis
qed

lemma strip_date_prefix_unmatched:
  assumes "\<not> starts_with_i s (js ''Joined on'')" "\<not> starts_with_i s (js ''Member since'')"
  shows "strip_date_prefix s = s"
  using assms by (simp add: strip_date_prefix_def)

lemma trimmed_suffix:
  assumes "trimmed (a @ b)" "b \<noteq> []" "\<not> is_space (hd b)"
  shows "trimmed b"
  using assms by (simp add: trimmed_def)

lemma strip_date_prefix_suffix: "\<exists>a. s = a @ strip_date_prefix s"
proof -
  have "\<exists>a. r = a @ dropWhile is_space (if starts_with r (js '':'') then tl r else r)" for r
  proof (cases "starts_with r (js '':'')")
    case True
    then obtain c cs where "r = c # cs" by (cases r) (auto simp: js_def)
    then have "r = (c # takeWhile is_space cs) @ dropWhile is_space (tl r)" by simp
    then show ?thesis using True by metis
  next
    case False
    have "r = takeWhile is_space r @ dropWhile is_space r" by simp
    then show ?thesis using False by metis
  qed
  then have "\<exists>a. drop n s = a @ dropWhile is_space
      (if starts_with (drop n s) (js '':'') then tl (drop n s) else drop n s)" for n
    by blast
  then have "\<exists>a. s = a @ dropWhile is_space
      (if starts_with (drop n s) (js '':'') then tl (drop n s) else drop n s)" for n
    by (metis append_assoc append_take_drop_id)
  then show ?thesis
    unfolding strip_date_prefix_def Let_def
    by (auto split: option.splits)
qed

lemma strip_date_prefix_hd:
  "trimmed s \<Longrightarrow> strip_date_prefix s \<noteq> [] \<Longrightarrow> \<not> is_space (hd (strip_date_prefix s))"
  unfolding strip_date_prefix_def Let_def
  by (auto simp: trimmed_def hd_dropWhile split: if_splits)

lemma trimmed_strip: "trimmed s \<Longrightarrow> trimmed (strip_date_prefix s)"
proof (cases "strip_date_prefix s = []")
  case True
  then show ?thesis by (simp add: trimmed_def)
next
  case False
  assume t: "trimmed s"
  obtain a where a: "s = a @ strip_date_prefix s" using strip_date_prefix_suffix by blast
  have "trimmed (a @ strip_date_prefix s)" using t a by simp
  then show ?thesis using False strip_date_prefix_hd [OF t False] by (rule trimmed_suffix)
qed

lemma parseDate_nonempty:
  "t \<noteq> [] \<Longrightarrow> parseDate (Some t) = Some (strip_date_prefix (trim t))"
  by (simp add: parseDate_def trim_trimmed trimmed_strip trimmed_trim)

lemmas date_eval = parseDate_nonempty trim_def strip_date_prefix_def js_def is_space_def
  canonicalize_def Let_def

text \<open>
  C2, as stated, fails on the empty string: it is neither null nor absent, and \<open>parseDate\<close>
  returns null for it, not the (empty) remainder.
\<close>

theorem parseDate_empty_string:
  "parseDate (Some (js '''')) = None \<and> strip_date_prefix (trim (js '''')) = js ''''"
  by (simp add: parseDate_def trim_def strip_date_prefix_def js_def)

text \<open>
  C2, amended.  \<open>parseDate\<close> is total; null and the empty string give null; any other input
  gives the trimmed input without its date prefix, and the second \<open>trim\<close> of the source
  changes nothing.  \<open>trim t\<close> is \<open>t\<close> without its leading and trailing white space.  A
  trimmed string that begins with neither prefix is returned unchanged; one that begins,
  in any letter case, with \<open>Joined on\<close> or \<open>Member since\<close> loses that prefix, one colon if
  it follows, and all white space after it, and what remains is returned unchanged.
\<close>

theorem parseDate_coercion:
  "parseDate None = None \<and>
   parseDate (Some []) = None \<and>
   (t \<noteq> [] \<longrightarrow> parseDate (Some t) = Some (strip_date_prefix (trim t))) \<and>
   (\<exists>l r. t = l @ trim t @ r \<and> all_space l \<and> all_space r) \<and> trimmed (trim t) \<and>
   (\<not> starts_with_i s (js ''Joined on'') \<and> \<not> starts_with_i s (js ''Member since'') \<longrightarrow>
      strip_date_prefix s = s) \<and>
   ((p = js ''Joined on'' \<or> p = js ''Member since'') \<and> ci_equal pre p \<longrightarrow>
      (\<exists>colon ws. rest = colon @ ws @ strip_date_prefix (pre @ rest) \<and>
         (colon = [] \<or> colon = js '':'') \<and> all_space ws \<and>
         (colon = [] \<longrightarrow> \<not> starts_with rest (js '':'')) \<and>
         (strip_date_prefix (pre @ rest) \<noteq> [] \<longrightarrow>
            \<not> is_space (hd (strip_date_prefix (pre @ rest)))))) \<and>
   parseDate (Some (js ''Joined on: March 2021'')) = Some (js ''March 2021'') \<and>
   parseDate (Some (js ''  Member since:June 2020'')) = Some (js ''June 2020'') \<and>
   parseDate (Some (js ''March 2021'')) = Some (js ''March 2021'')"
proof -
  have e1: "parseDate (Some (js ''Joined on: March 2021'')) = Some (js ''March 2021'')"
    by (simp add: date_eval)
  have e2: "parseDate (Some (js ''  Member since:June 2020'')) = Some (js ''June 2020'')"
    by (simp add: date_eval)
  have e3: "parseDate (Some (js ''March 2021'')) = Some (js ''March 2021'')"
    by (simp add: date_eval)
  have m: "(p = js ''Joined on'' \<or> p = js ''Member since'') \<and> ci_equal pre p \<longrightarrow>
      (\<exists>colon ws. rest = colon @ ws @ strip_date_prefix (pre @ rest) \<and>
         (colon = [] \<or> colon = js '':'') \<and> all_space ws \<and>
         (colon = [] \<longrightarrow> \<not> starts_with rest (js '':'')) \<and>
         (strip_date_prefix (pre @ rest) \<noteq> [] \<longrightarrow>
            \<not> is_space (hd (strip_date_prefix (pre @ rest)))))"
    using strip_date_prefix_matched by blast
  have n: "parseDate None = None \<and> parseDate (Some []) = None"
    by (simp add: parseDate_def)
  show ?thesis
    using e1 e2 e3 m n parseDate_nonempty [of t] trim_split [of t] trimmed_trim [of t]
      strip_date_prefix_unmatched [of s]
    by blast
qed

theorem parseDate_coercion_witness:
  "js '' Joined On  2019 '' \<noteq> [] \<and>
   parseDate (Some (js '' Joined On  2019 '')) = Some (strip_date_prefix (trim (js '' Joined On  2019 ''))) \<and>
   \<not> starts_with_i (js ''Since 2019'') (js ''Joined on'') \<and>
   \<not> starts_with_i (js ''Since 2019'') (js ''Member since'') \<and>
   strip_date_prefix (js ''Since 2019'') = js ''Since 2019'' \<and>
   ci_equal (js ''MEMBER SINCE'') (js ''Member since'') \<and>
   (\<exists>colon ws. js '': Jan 2022'' = colon @ ws @ strip_date_prefix (js ''MEMBER SINCE'' @ js '': Jan 2022'') \<and>
      (colon = [] \<or> colon = js '':'') \<and> all_space ws \<and>
      (colon = [] \<longrightarrow> \<not> starts_with (js '': Jan 2022'') (js '':'')) \<and>
      (strip_date_prefix (js ''MEMBER SINCE'' @ js '': Jan 2022'') \<noteq> [] \<longrightarrow>
         \<not> is_space (hd (strip_date_prefix (js ''MEMBER SINCE'' @ js '': Jan 2022'')))))"
proof -
  have a: "js '' Joined On  2019 '' \<noteq> []" by simp
  have b: "\<not> starts_with_i (js ''Since 2019'') (js ''Joined on'')"
    "\<not> starts_with_i (js ''Since 2019'') (js ''Member since'')"
    by (simp_all add: js_def canonicalize_def)
  have c: "ci_equal (js ''MEMBER SINCE'') (js ''Member since'')"
    by (simp add: ci_equal_def js_def canonicalize_def)
  show ?thesis
    using a b c
      parseDate_coercion [of "js '' Joined On  2019 ''" "js ''Since 2019''" "js ''Member since''"
        "js ''MEMBER SINCE''" "js '': Jan 2022''"]
    by blast
qed

section \<open>Substrings\<close>

lemma starts_with_append_iff: "starts_with s p \<longleftrightarrow> (\<exists>b. s = p @ b)"
  by (induction s p rule: starts_with.induct) auto

text \<open>\<open>includes\<close> holds exactly when the argument occurs as a contiguous part.\<close>

lemma includes_js_iff: "includes_js s sub \<longleftrightarrow> (\<exists>a b. s = a @ sub @ b)"
proof (induction s)
  case Nil
  show ?case by auto
next
  case (Cons c cs)
  have "(\<exists>a b. c # cs = a @ sub @ b) \<longleftrightarrow>
      (\<exists>b. c # cs = sub @ b) \<or> (\<exists>a b. cs = a @ sub @ b)"
  proof
    assume "\<exists>a b. c # cs = a @ sub @ b"
    then obtain a b where ab: "c # cs = a @ sub @ b" by blast
    show "(\<exists>b. c # cs = sub @ b) \<or> (\<exists>a b. cs = a @ sub @ b)"
    proof (cases a)
      case Nil
      then show ?thesis using ab by auto
    next
      case (Cons x xs)
      then have "cs = xs @ sub @ b" using ab by simp
      then show ?thesis by blast
    qed
  next
    assume "(\<exists>b. c # cs = sub @ b) \<or> (\<exists>a b. cs = a @ sub @ b)"
    then show "\<exists>a b. c # cs = a @ sub @ b"
    proof
      assume "\<exists>b. c # cs = sub @ b"
      then obtain b where "c # cs = [] @ sub @ b" by auto
      then show ?thesis by blast
    next
      assume "\<exists>a b. cs = a @ sub @ b"
      then obtain a b where "c # cs = (c # a) @ sub @ b" by auto
      then show ?thesis by blast
    qed
  qed
  then show ?case using Cons.IH by (simp add: starts_with_append_iff)
qed

lemma includes_js_append: "includes_js s sub \<Longrightarrow> includes_js (pre @ s) sub"
  unfolding includes_js_iff by (metis append_assoc)

section \<open>Response formatter: properties\<close>

lemma num_or_simps:
  "falsy_num x \<Longrightarrow> num_or x d = d" "\<not> falsy_num x \<Longrightarrow> num_or x d = x"
  by (simp_all add: num_or_def)

lemma num_or_zero_not_NaN: "num_or x (Num 0) \<noteq> NaN"
  by (simp add: num_or_def falsy_num_def)

lemma format_response_fields:
  "format_response name st =
     \<lparr> status = js ''success'', message_text = js ''retrieved'', username = name,
       joinedDate = str_or_null (stats.joinedDate st),
       totalSolved = num_or (stats.totalSolved st) (Num 0),
       totalQuestions = Num 0,
       easySolved = num_or (stats.easySolved st) (Num 0),
       totalEasy = Num 0,
       mediumSolved = num_or (moderateSolved st) (Num 0),
       totalMedium = Num 0,
       hardSolved = num_or (stats.hardSolved st) (Num 0),
       totalHard = Num 0,
       ninjaSolved = num_or (stats.ninjaSolved st) (Num 0),
       acceptanceRate = Num 0, ranking = Num 0, contributionPoints = Num 0,
       reputation = Num 0, submissionCalendar = [],
       currentStreak = num_or (stats.currentStreak st) (Num 0),
       longestStreak = num_or (stats.longestStreak st) (Num 0),
       streakFreezeLeft = num_or (stats.streakFreezeLeft st) (Num 0),
       expcount = num_or (stats.expcount st) (Num 0),
       badge = str_or_null (stats.badge st) \<rparr>"
  by (simp add: format_response_def finalResponse_def formatCode360Data_def)

lemma format_response_default:
  "no_statistics st \<Longrightarrow> format_response name st = default_response name"
  by (simp add: format_response_fields default_response_def no_statistics_def num_or_def
      falsy_num_def str_or_null_def)

text \<open>
  C3.  The formatter is a total function into the fixed schema.  Every extracted numeric
  field is the source field, or 0 when that is falsy (0 or NaN); \<open>joinedDate\<close> and \<open>badge\<close>
  are the source field, or null when that is falsy (null or empty); \<open>totalQuestions\<close>,
  \<open>totalEasy\<close>, \<open>totalMedium\<close>, \<open>totalHard\<close>, \<open>ranking\<close>, \<open>contributionPoints\<close>, \<open>reputation\<close> and
  \<open>acceptanceRate\<close> are 0 and \<open>submissionCalendar\<close> is empty, whatever the input.  The
  all-default record gives the all-default response.
\<close>

theorem format_response_schema:
  "format_response name st =
     \<lparr> status = js ''success'', message_text = js ''retrieved'', username = name,
       joinedDate = str_or_null (stats.joinedDate st),
       totalSolved = num_or (stats.totalSolved st) (Num 0),
       totalQuestions = Num 0,
       easySolved = num_or (stats.easySolved st) (Num 0),
       totalEasy = Num 0,
       mediumSolved = num_or (moderateSolved st) (Num 0),
       totalMedium = Num 0,
       hardSolved = num_or (stats.hardSolved st) (Num 0),
       totalHard = Num 0,
       ninjaSolved = num_or (stats.ninjaSolved st) (Num 0),
       acceptanceRate = Num 0, ranking = Num 0, contributionPoints = Num 0,
       reputation = Num 0, submissionCalendar = [],
       currentStreak = num_or (stats.currentStreak st) (Num 0),
       longestStreak = num_or (stats.longestStreak st) (Num 0),
       streakFreezeLeft = num_or (stats.streakFreezeLeft st) (Num 0),
       expcount = num_or (stats.expcount st) (Num 0),
       badge = str_or_null (stats.badge st) \<rparr> \<and>
   (falsy_num x \<longrightarrow> num_or x (Num 0) = Num 0) \<and>
   (\<not> falsy_num x \<longrightarrow> num_or x (Num 0) = x) \<and>
   falsy_num x = (x = Num 0 \<or> x = NaN) \<and>
   (falsy_str y \<longrightarrow> str_or_null y = None) \<and>
   (\<not> falsy_str y \<longrightarrow> str_or_null y = y) \<and>
   falsy_str y = (y = None \<or> y = Some []) \<and>
   (no_statistics st \<longrightarrow> format_response name st = default_response name)"
  using format_response_fields [of name st] format_response_default [of st name]
  by (simp add: num_or_def str_or_null_def falsy_num_def falsy_str_def)

section \<open>The example pages, evaluated\<close>

lemmas extract_defs = extract_stats_def extract_badge_def extract_xp_def extract_joined_def
  joined_date_element_def extract_streak_def extract_difficulty_def extract_total_def
  initial_result_def find_badge_def badge_test_def match_number_word_def match_digits_def
  toLowerCase_def lower_unit_def trim_def is_space_def is_digit_def is_word_def js_def Let_def

lemma blank_raw:
  "extract_stats blank_dom =
     \<lparr> raw_stats.totalSolved = js ''0'', raw_stats.easySolved = js ''0'', raw_stats.moderateSolved = js ''0'',
       raw_stats.hardSolved = js ''0'', raw_stats.ninjaSolved = js ''0'', raw_stats.currentStreak = js ''0'',
       raw_stats.longestStreak = js ''0'', raw_stats.streakFreezeLeft = js ''0'', raw_stats.joinedDate = None,
       raw_stats.expcount = js ''0'', raw_stats.badge = None, raw_stats.pageTitle = js ''Code360'',
       raw_stats.url = profileUrl (js ''nobody''), raw_stats.pageContent = js ''Loading'' \<rparr>"
  by (simp add: blank_dom_def extract_defs)

lemma codushan_raw:
  "extract_stats codushan_dom =
     \<lparr> raw_stats.totalSolved = js ''120'', raw_stats.easySolved = js ''50'', raw_stats.moderateSolved = js ''40'',
       raw_stats.hardSolved = js ''30'', raw_stats.ninjaSolved = js ''0'', raw_stats.currentStreak = js ''5'',
       raw_stats.longestStreak = js ''12'', raw_stats.streakFreezeLeft = js ''2'',
       raw_stats.joinedDate = Some (js ''Joined on: Jan 2022''), raw_stats.expcount = js ''3400 XP'',
       raw_stats.badge = Some (js ''5 Star Achiever''), raw_stats.pageTitle = js ''Codushan'',
       raw_stats.url = profileUrl (js ''Codushan''), raw_stats.pageContent = js ''Codushan 120 solved'' \<rparr>"
  by (simp add: codushan_dom_def extract_defs)

lemmas number_eval = parseNumber_cleaned to_double_exact num_or_def falsy_num_def digits_eval

lemma blank_normalized: "normalize (extract_stats blank_dom) = blank_stats"
  by (simp add: blank_raw normalize_def blank_stats_def parseDate_def number_eval)

lemma codushan_normalized: "normalize (extract_stats codushan_dom) = codushan_stats"
  by (simp add: codushan_raw normalize_def codushan_stats_def number_eval date_eval)

lemma no_statistics_blank: "no_statistics blank_stats"
  by (simp add: no_statistics_def blank_stats_def falsy_str_def)

theorem format_response_schema_witness:
  "format_response (js ''Codushan'') codushan_stats = codushan_response \<and>
   falsy_num NaN \<and> num_or NaN (Num 0) = Num 0 \<and>
   \<not> falsy_num (Num 120) \<and> num_or (Num 120) (Num 0) = Num 120 \<and>
   falsy_str (Some []) \<and> str_or_null (Some []) = None \<and>
   \<not> falsy_str (Some (js ''Jan 2022'')) \<and>
   str_or_null (Some (js ''Jan 2022'')) = Some (js ''Jan 2022'') \<and>
   no_statistics blank_stats \<and>
   format_response (js ''nobody'') blank_stats = default_response (js ''nobody'')"
proof -
  have a: "falsy_num NaN" "\<not> falsy_num (Num 120)" "falsy_str (Some [])"
    "\<not> falsy_str (Some (js ''Jan 2022''))"
    by (simp_all add: falsy_num_def falsy_str_def)
  have b: "format_response (js ''Codushan'') codushan_stats = codushan_response"
    using format_response_schema [of "js ''Codushan''" codushan_stats NaN None] a
    by (simp add: codushan_stats_def codushan_response_def num_or_def falsy_num_def
        str_or_null_def falsy_str_def)
  show ?thesis
    using a b no_statistics_blank
      format_response_schema [of "js ''nobody''" blank_stats NaN "Some []"]
      format_response_schema [of "js ''nobody''" blank_stats "Num 120" "Some (js ''Jan 2022'')"]
    by blast
qed

section \<open>Page extractor: properties\<close>

lemma profileExists_iff:
  "profileExists d \<longleftrightarrow>
     \<not> (\<exists>m a b. not_found_marker m \<and> body_text d = a @ m @ b)"
  unfolding profileExists_def includes_js_iff not_found_marker_def by blast

lemma layered_waits_escalates:
  "snd (layered_waits p) \<noteq> None \<longleftrightarrow>
     (\<exists>e. (wait_problems_solved p = Some e \<or>
            wait_problems_solved p = None \<and> wait_streak p = Some e) \<and>
          includes_js (message e) (js ''timeout''))"
  by (auto simp: layered_waits_def wait_rejected_def split: option.splits)

lemma scrape_after_waits:
  assumes "launch_outcome p = None" "goto_outcome p = None" "snd (layered_waits p) = None"
  shows "scrapeCode360Puppeteer name p =
     (if profileExists (document p)
      then ([LaunchBrowser, Goto (profileUrl name)] @ fst (layered_waits p) @
            [CheckProfileExists, ExtractStats, CloseBrowser],
            Inr (normalize (extract_stats (document p))))
      else ([LaunchBrowser, Goto (profileUrl name)] @ fst (layered_waits p) @
            [CheckProfileExists, CloseBrowser, ConsoleError],
            Inl (JsError (js ''Code360 profile not found''))))"
proof -
  obtain waits where w: "layered_waits p = (waits, None)"
    using assms(3) by (cases "layered_waits p") auto
  show ?thesis using assms(1,2) w by (simp add: scrapeCode360Puppeteer_def)
qed

lemma extract_not_in_waits: "ExtractStats \<notin> set (fst (layered_waits p))"
  by (auto simp: layered_waits_def wait_rejected_def split: option.splits)

text \<open>
  C4.  When the browser was launched, the navigation succeeded and the waits ended without
  an escalated error: if the body text contains one of the markers \<open>Profile not found\<close>,
  \<open>404\<close>, \<open>User not found\<close> (compared code unit by code unit, so case-sensitively), the
  extractor throws \<open>Code360 profile not found\<close> right after the check, the extraction script
  is not run and the browser is closed; if it contains none, the extraction script runs
  and its normalized result is returned.
\<close>

theorem not_found_detection:
  assumes "launch_outcome p = None" "goto_outcome p = None" "snd (layered_waits p) = None"
  shows "((\<exists>m a b. not_found_marker m \<and> body_text (document p) = a @ m @ b) \<longrightarrow>
            scrapeCode360Puppeteer name p =
              ([LaunchBrowser, Goto (profileUrl name)] @ fst (layered_waits p) @
               [CheckProfileExists, CloseBrowser, ConsoleError],
               Inl (JsError (js ''Code360 profile not found''))) \<and>
            ExtractStats \<notin> set (fst (scrapeCode360Puppeteer name p))) \<and>
         (\<not> (\<exists>m a b. not_found_marker m \<and> body_text (document p) = a @ m @ b) \<longrightarrow>
            scrapeCode360Puppeteer name p =
              ([LaunchBrowser, Goto (profileUrl name)] @ fst (layered_waits p) @
               [CheckProfileExists, ExtractStats, CloseBrowser],
               Inr (normalize (extract_stats (document p)))))"
  using scrape_after_waits [OF assms, of name] extract_not_in_waits [of p]
  by (simp add: profileExists_iff)

lemma loaded_simps:
  "launch_outcome (loaded d) = None" "goto_outcome (loaded d) = None"
  "wait_problems_solved (loaded d) = None" "wait_streak (loaded d) = None"
  "wait_xp_points (loaded d) = None" "document (loaded d) = d"
  by (simp_all add: loaded_def)

lemma layered_waits_loaded:
  "layered_waits (loaded d) =
     ([WaitForSelector (js ''.problems-solved'') 20000,
       WaitForSelector (js ''.current-and-longest-text-container'') 10000,
       WaitForSelector (js ''.xp-points'') 5000], None)"
  by (simp add: layered_waits_def loaded_simps)

lemma blank_no_marker:
  "\<not> (\<exists>m a b. not_found_marker m \<and> body_text (document (loaded blank_dom)) = a @ m @ b)"
proof -
  have "profileExists blank_dom"
    by (simp add: profileExists_def blank_dom_def js_def)
  then show ?thesis by (simp add: profileExists_iff loaded_simps)
qed

text \<open>The markers are compared with their letter case.\<close>

lemma marker_case_sensitive:
  "profileExists (blank_dom\<lparr>body_text := js ''profile not found''\<rparr>) \<and>
   \<not> profileExists (blank_dom\<lparr>body_text := js ''Profile not found''\<rparr>)"
  by (simp add: profileExists_def js_def)

theorem not_found_detection_witness:
  "launch_outcome (loaded not_found_dom) = None \<and> goto_outcome (loaded not_found_dom) = None \<and>
   snd (layered_waits (loaded not_found_dom)) = None \<and>
   not_found_marker (js ''User not found'') \<and>
   body_text (document (loaded not_found_dom)) = js ''Oops! '' @ js ''User not found'' @ [] \<and>
   snd (scrapeCode360Puppeteer (js ''ghost'') (loaded not_found_dom)) =
     Inl (JsError (js ''Code360 profile not found'')) \<and>
   ExtractStats \<notin> set (fst (scrapeCode360Puppeteer (js ''ghost'') (loaded not_found_dom))) \<and>
   \<not> (\<exists>m a b. not_found_marker m \<and> body_text (document (loaded blank_dom)) = a @ m @ b) \<and>
   snd (scrapeCode360Puppeteer (js ''nobody'') (loaded blank_dom)) = Inr blank_stats"
proof -
  have m: "not_found_marker (js ''User not found'')" by (simp add: not_found_marker_def)
  have b: "body_text (document (loaded not_found_dom)) = js ''Oops! '' @ js ''User not found'' @ []"
    by (simp add: loaded_simps not_found_dom_def js_def)
  from m b have ex: "\<exists>m a b. not_found_marker m \<and>
      body_text (document (loaded not_found_dom)) = a @ m @ b" by blast
  have 1: "snd (scrapeCode360Puppeteer (js ''ghost'') (loaded not_found_dom)) =
      Inl (JsError (js ''Code360 profile not found'')) \<and>
      ExtractStats \<notin> set (fst (scrapeCode360Puppeteer (js ''ghost'') (loaded not_found_dom)))"
    using not_found_detection [of "loaded not_found_dom" "js ''ghost''"] ex
    by (simp add: loaded_simps layered_waits_loaded)
  have 2: "snd (scrapeCode360Puppeteer (js ''nobody'') (loaded blank_dom)) = Inr blank_stats"
    using not_found_detection [of "loaded blank_dom" "js ''nobody''"] blank_no_marker
    by (simp add: loaded_simps layered_waits_loaded blank_normalized)
  show ?thesis using m b 1 2 blank_no_marker
    by (simp add: loaded_simps layered_waits_loaded)
qed

section \<open>Profile fetcher: properties\<close>

lemma scrapeCode360_result: "snd (scrapeCode360 name p) = snd (scrapeCode360Puppeteer name p)"
  by (simp add: scrapeCode360_def split: prod.splits sum.splits)


text \<open>
  C5.  The fetcher returns what the extractor returns and throws only what the extractor
  throws.  When the extractor returns a record whose numeric fields are all 0 and whose
  \<open>joinedDate\<close> and \<open>badge\<close> are null, the fetcher logs the warning and returns that record.
\<close>

theorem all_default_is_success:
  "snd (scrapeCode360 name p) = snd (scrapeCode360Puppeteer name p) \<and>
   (scrapeCode360Puppeteer name p = (evs, Inr st) \<and>
    stats.totalSolved st = Num 0 \<and> stats.easySolved st = Num 0 \<and>
    stats.moderateSolved st = Num 0 \<and> stats.hardSolved st = Num 0 \<and>
    stats.ninjaSolved st = Num 0 \<and> stats.currentStreak st = Num 0 \<and>
    stats.longestStreak st = Num 0 \<and> stats.streakFreezeLeft st = Num 0 \<and>
    stats.expcount st = Num 0 \<and> stats.joinedDate st = None \<and> stats.badge st = None \<longrightarrow>
      scrapeCode360 name p = (evs @ [ConsoleWarn (NoStatisticsFound name)], Inr st))"
  by (simp add: scrapeCode360_result)
     (simp add: scrapeCode360_def no_statistics_def falsy_str_def)

lemma scrape_blank:
  "scrapeCode360Puppeteer (js ''nobody'') (loaded blank_dom) =
     ([LaunchBrowser, Goto (profileUrl (js ''nobody'')),
       WaitForSelector (js ''.problems-solved'') 20000,
       WaitForSelector (js ''.current-and-longest-text-container'') 10000,
       WaitForSelector (js ''.xp-points'') 5000, CheckProfileExists, ExtractStats, CloseBrowser],
      Inr blank_stats)"
proof -
  have "profileExists blank_dom"
    by (simp add: profileExists_def blank_dom_def js_def)
  then show ?thesis
    by (simp add: scrapeCode360Puppeteer_def loaded_simps layered_waits_loaded blank_normalized)
qed

theorem all_default_is_success_witness:
  "scrapeCode360Puppeteer (js ''nobody'') (loaded blank_dom) =
     ([LaunchBrowser, Goto (profileUrl (js ''nobody'')),
       WaitForSelector (js ''.problems-solved'') 20000,
       WaitForSelector (js ''.current-and-longest-text-container'') 10000,
       WaitForSelector (js ''.xp-points'') 5000, CheckProfileExists, ExtractStats, CloseBrowser],
      Inr blank_stats) \<and>
   stats.totalSolved blank_stats = Num 0 \<and> stats.easySolved blank_stats = Num 0 \<and>
   stats.moderateSolved blank_stats = Num 0 \<and> stats.hardSolved blank_stats = Num 0 \<and>
   stats.ninjaSolved blank_stats = Num 0 \<and> stats.currentStreak blank_stats = Num 0 \<and>
   stats.longestStreak blank_stats = Num 0 \<and> stats.streakFreezeLeft blank_stats = Num 0 \<and>
   stats.expcount blank_stats = Num 0 \<and> stats.joinedDate blank_stats = None \<and>
   stats.badge blank_stats = None \<and>
   scrapeCode360 (js ''nobody'') (loaded blank_dom) =
     ([LaunchBrowser, Goto (profileUrl (js ''nobody'')),
       WaitForSelector (js ''.problems-solved'') 20000,
       WaitForSelector (js ''.current-and-longest-text-container'') 10000,
       WaitForSelector (js ''.xp-points'') 5000, CheckProfileExists, ExtractStats, CloseBrowser,
       ConsoleWarn (NoStatisticsFound (js ''nobody''))],
      Inr blank_stats)"
proof -
  have z: "stats.totalSolved blank_stats = Num 0 \<and> stats.easySolved blank_stats = Num 0 \<and>
    stats.moderateSolved blank_stats = Num 0 \<and> stats.hardSolved blank_stats = Num 0 \<and>
    stats.ninjaSolved blank_stats = Num 0 \<and> stats.currentStreak blank_stats = Num 0 \<and>
    stats.longestStreak blank_stats = Num 0 \<and> stats.streakFreezeLeft blank_stats = Num 0 \<and>
    stats.expcount blank_stats = Num 0 \<and> stats.joinedDate blank_stats = None \<and>
    stats.badge blank_stats = None"
    by (simp add: blank_stats_def)
  show ?thesis
    using z scrape_blank
      all_default_is_success [of "js ''nobody''" "loaded blank_dom"
        "[LaunchBrowser, Goto (profileUrl (js ''nobody'')),
          WaitForSelector (js ''.problems-solved'') 20000,
          WaitForSelector (js ''.current-and-longest-text-container'') 10000,
          WaitForSelector (js ''.xp-points'') 5000, CheckProfileExists, ExtractStats, CloseBrowser]"
        blank_stats]
    by simp
qed

section \<open>Waits and error mapping\<close>

lemma scrape_wait_escalated:
  assumes "launch_outcome p = None" "goto_outcome p = None"
    and "wait_problems_solved p = Some e \<or> wait_problems_solved p = None \<and> wait_streak p = Some e"
    and "includes_js (message e) (js ''timeout'')"
  shows "snd (scrapeCode360Puppeteer name p) =
     Inl (JsError (js ''Page element not found or timed out: '' @ message e))"
  using assms
  by (auto simp: scrapeCode360Puppeteer_def layered_waits_def wait_rejected_def)


lemma error_response_cases:
  "includes_js (message e) (js ''timeout'') \<Longrightarrow>
     error_response e = \<lparr> status_code = 408,
       body = ErrorBody (js ''Request timeout - Code360 profile took too long to load or element not found.'') \<rparr>"
  "\<not> includes_js (message e) (js ''timeout'') \<Longrightarrow> includes_js (message e) (js ''not found'') \<Longrightarrow>
     error_response e = \<lparr> status_code = 404, body = ErrorBody (js ''Code360 profile not found'') \<rparr>"
  "\<not> includes_js (message e) (js ''timeout'') \<Longrightarrow> \<not> includes_js (message e) (js ''not found'') \<Longrightarrow>
     error_response e = \<lparr> status_code = 500,
       body = FailureBody (js ''error'') (js ''Failed to scrape Code360 profile'') (message e) \<rparr>"
  by (simp_all add: error_response_def)





lemma timeout_in_message: "includes_js (js ''timeout 10000ms exceeded'') (js ''timeout'')"
  by (simp add: js_def)

lemma scrape_codushan:
  "snd (scrapeCode360Puppeteer (js ''Codushan'') (loaded codushan_dom)) = Inr codushan_stats"
proof -
  have "profileExists codushan_dom"
    by (simp add: profileExists_def codushan_dom_def js_def)
  then show ?thesis
    by (simp add: scrapeCode360Puppeteer_def loaded_simps layered_waits_loaded
        codushan_normalized)
qed


text \<open>
  A rejection of a mandatory wait whose message does not contain \<open>timeout\<close> is dropped by
  the handler of the inner \<open>try\<close>: the extractor goes on to the existence check.
\<close>

lemma mandatory_wait_other_rejection:
  assumes "wait_problems_solved p = Some e \<or>
      wait_problems_solved p = None \<and> wait_streak p = Some e"
    and "\<not> includes_js (message e) (js ''timeout'')"
  shows "snd (layered_waits p) = None"
  using assms by (auto simp: layered_waits_def wait_rejected_def)

section \<open>Profile endpoint and cache: properties\<close>

lemma cacheKey_inj: "cacheKey a = cacheKey b \<longleftrightarrow> a = b"
  by (simp add: cacheKey_def)

lemma get_code360_hit:
  assumes "name \<noteq> []" "c (cacheKey name) = Some entry"
    "now - timestamp entry < CACHE_DURATION"
  shows "get_code360 c (Some name) now p now' =
     ([CacheGet (cacheKey name)], c,
      \<lparr> status_code = 200, body = ProfileBody (data entry) \<rparr>)"
  using assms by (simp add: get_code360_def)

lemma get_code360_miss:
  assumes "name \<noteq> []" "cache_miss c name now"
  shows "get_code360 c (Some name) now p now' = scrape_and_store c name p now'"
  using assms by (simp add: get_code360_def cache_miss_def split: option.splits)

lemma scrape_and_store_events:
  "ScrapeCode360 name \<in> set (fst (scrape_and_store c name p now'))"
  by (simp add: scrape_and_store_def split: prod.splits sum.splits)

lemma scrape_and_store_success:
  assumes "scrapeCode360 name p = (evs, Inr st)"
  shows "scrape_and_store c name p now' =
     ([CacheGet (cacheKey name), ScrapeCode360 name] @ evs @ [CacheSet (cacheKey name)],
      c(cacheKey name \<mapsto> \<lparr> data = format_response name st, timestamp = now' \<rparr>),
      \<lparr> status_code = 200, body = ProfileBody (format_response name st) \<rparr>)"
  using assms by (simp add: scrape_and_store_def)

lemma error_response_status: "status_code (error_response e) \<in> {408, 404, 500}"
  by (simp add: error_response_def)

lemma scrape_and_store_cases:
  "(\<exists>evs e. scrapeCode360 name p = (evs, Inl e) \<and>
      scrape_and_store c name p now' =
        ([CacheGet (cacheKey name), ScrapeCode360 name] @ evs @ [ConsoleError], c,
         error_response e)) \<or>
   (\<exists>evs st. scrapeCode360 name p = (evs, Inr st) \<and>
      scrape_and_store c name p now' =
        ([CacheGet (cacheKey name), ScrapeCode360 name] @ evs @ [CacheSet (cacheKey name)],
         c(cacheKey name \<mapsto> \<lparr> data = format_response name st, timestamp = now' \<rparr>),
         \<lparr> status_code = 200, body = ProfileBody (format_response name st) \<rparr>))"
proof (cases "scrapeCode360 name p")
  case (Pair evs r)
  then show ?thesis by (cases r) (simp_all add: scrape_and_store_def)
qed

lemma get_code360_scraped:
  assumes "ScrapeCode360 name \<in> set (fst (get_code360 c (Some name) now p now'))"
  shows "name \<noteq> [] \<and> cache_miss c name now"
  using assms
  by (auto simp: get_code360_def username_required_def cache_miss_def
      split: option.splits if_splits)

text \<open>After a response with status 200 the cache holds the response under the key.\<close>

lemma get_code360_ok:
  assumes "get_code360 c (Some name) now p now' = (evs, c1, r)" "status_code r = 200"
  shows "\<exists>entry. c1 (cacheKey name) = Some entry \<and>
           r = \<lparr> status_code = 200, body = ProfileBody (data entry) \<rparr> \<and>
           (ScrapeCode360 name \<in> set evs \<longrightarrow> timestamp entry = now')"
proof (cases "name = []")
  case True
  then show ?thesis using assms by (auto simp: get_code360_def username_required_def)
next
  case False
  show ?thesis
  proof (cases "cache_miss c name now")
    case True
    then have g: "scrape_and_store c name p now' = (evs, c1, r)"
      using False assms(1) by (simp add: get_code360_miss)
    from scrape_and_store_cases [of name p c now'] show ?thesis
    proof (elim disjE exE conjE)
      fix evs' e
      assume "scrape_and_store c name p now' =
        ([CacheGet (cacheKey name), ScrapeCode360 name] @ evs' @ [ConsoleError], c,
         error_response e)"
      then have "r = error_response e" using g by simp
      then have "status_code r \<noteq> 200" using error_response_status [of e] by auto
      then show ?thesis using assms(2) by simp
    next
      fix evs' st
      assume "scrape_and_store c name p now' =
        ([CacheGet (cacheKey name), ScrapeCode360 name] @ evs' @ [CacheSet (cacheKey name)],
         c(cacheKey name \<mapsto> \<lparr> data = format_response name st, timestamp = now' \<rparr>),
         \<lparr> status_code = 200, body = ProfileBody (format_response name st) \<rparr>)"
      then show ?thesis using g by auto
    qed
  next
    case miss: False
    then obtain entry where e: "c (cacheKey name) = Some entry"
      "now - timestamp entry < CACHE_DURATION"
      by (auto simp: cache_miss_def split: option.splits)
    have "get_code360 c (Some name) now p now' =
      ([CacheGet (cacheKey name)], c, \<lparr> status_code = 200, body = ProfileBody (data entry) \<rparr>)"
      using False e by (rule get_code360_hit)
    then show ?thesis using assms(1) e(1) by auto
  qed
qed

lemma scrape_events_no_cache: "CacheSet k \<notin> set (fst (scrapeCode360 name p))"
  by (auto simp: scrapeCode360_def scrapeCode360Puppeteer_def layered_waits_def
      wait_rejected_def split: option.splits if_splits prod.splits sum.splits)

text \<open>
  C7.  The cache key is \<open>code360_\<close> followed by the user name as given, so names that differ
  (in case or otherwise) have different keys; the TTL is 600 seconds.  A request that
  misses the cache and whose scrape succeeds stores the response, with the clock, under
  the key.  A second request for the same name less than 600000 ms after the entry was
  stored returns the same response and neither scrapes nor changes the cache.
  \<open>POST /api/cache/clear\<close> empties the cache and answers with the confirmation message, and
  a request after it scrapes again.
\<close>

theorem cache_contract:
  "cacheKey name = js ''code360_'' @ name \<and>
   (cacheKey a = cacheKey b \<longleftrightarrow> a = b) \<and>
   CACHE_DURATION = 600 * 1000 \<and>
   (name \<noteq> [] \<and> cache_miss c name t1 \<and> scrapeCode360 name p1 = (evs, Inr st) \<longrightarrow>
      get_code360 c (Some name) t1 p1 t1' =
        ([CacheGet (cacheKey name), ScrapeCode360 name] @ evs @ [CacheSet (cacheKey name)],
         c(cacheKey name \<mapsto> \<lparr> data = format_response name st, timestamp = t1' \<rparr>),
         \<lparr> status_code = 200, body = ProfileBody (format_response name st) \<rparr>)) \<and>
   (get_code360 c (Some name) t1 p1 t1' = (evs1, c1, r1) \<and> status_code r1 = 200 \<and>
    ScrapeCode360 name \<in> set evs1 \<and> t2 - t1' < 600 * 1000 \<longrightarrow>
      get_code360 c1 (Some name) t2 p2 t2' = ([CacheGet (cacheKey name)], c1, r1)) \<and>
   (name \<noteq> [] \<and> c (cacheKey name) = Some entry \<and> t2 - timestamp entry < 600 * 1000 \<longrightarrow>
      get_code360 c (Some name) t2 p2 t2' =
        ([CacheGet (cacheKey name)], c,
         \<lparr> status_code = 200, body = ProfileBody (data entry) \<rparr>)) \<and>
   clear_cache c =
     (Map.empty, \<lparr> status_code = 200, body = MessageBody (js ''Cache cleared successfully'') \<rparr>) \<and>
   (name \<noteq> [] \<longrightarrow>
      ScrapeCode360 name \<in> set (fst (get_code360 (fst (clear_cache c)) (Some name) t3 p3 t3')))"
proof -
  have store: "get_code360 c (Some name) t1 p1 t1' =
        ([CacheGet (cacheKey name), ScrapeCode360 name] @ evs @ [CacheSet (cacheKey name)],
         c(cacheKey name \<mapsto> \<lparr> data = format_response name st, timestamp = t1' \<rparr>),
         \<lparr> status_code = 200, body = ProfileBody (format_response name st) \<rparr>)"
    if "name \<noteq> []" "cache_miss c name t1" "scrapeCode360 name p1 = (evs, Inr st)"
    using that by (simp add: get_code360_miss scrape_and_store_success)
  have hit: "get_code360 c (Some name) t2 p2 t2' =
        ([CacheGet (cacheKey name)], c,
         \<lparr> status_code = 200, body = ProfileBody (data entry) \<rparr>)"
    if "name \<noteq> []" "c (cacheKey name) = Some entry" "t2 - timestamp entry < 600 * 1000"
    using that by (simp add: get_code360_hit CACHE_DURATION_def)
  have again: "get_code360 c1 (Some name) t2 p2 t2' = ([CacheGet (cacheKey name)], c1, r1)"
    if g: "get_code360 c (Some name) t1 p1 t1' = (evs1, c1, r1)" and ok: "status_code r1 = 200"
      and s: "ScrapeCode360 name \<in> set evs1" and t: "t2 - t1' < 600 * 1000"
  proof -
    have n: "name \<noteq> []" using get_code360_scraped [of name c t1 p1 t1'] g s by simp
    obtain entry where e: "c1 (cacheKey name) = Some entry"
      "r1 = \<lparr> status_code = 200, body = ProfileBody (data entry) \<rparr>" "timestamp entry = t1'"
      using get_code360_ok [OF g ok] s by blast
    have "t2 - timestamp entry < CACHE_DURATION" using t e(3) by (simp add: CACHE_DURATION_def)
    then show ?thesis
      using get_code360_hit [of name c1 entry t2 p2 t2'] n e(1) e(2) by simp
  qed
  have cleared: "ScrapeCode360 name \<in> set (fst (get_code360 (fst (clear_cache c)) (Some name) t3 p3 t3'))"
    if "name \<noteq> []"
  proof -
    have "cache_miss (fst (clear_cache c)) name t3"
      by (simp add: clear_cache_def cache_miss_def)
    then show ?thesis using that by (simp add: get_code360_miss scrape_and_store_events)
  qed
  show ?thesis
    using store hit again cleared
    by (simp add: cacheKey_def CACHE_DURATION_def clear_cache_def)
qed

text \<open>
  The check of the route parameter with which the handler begins (the branch C9 is about):
  given an absent or empty parameter the handler answers 400 with
  \<open>{error: "Username is required"}\<close>; no event precedes the answer (no cache lookup, no
  scrape) and the cache is unchanged.  This is a property of the handler alone.  The route
  pattern \<open>/api/code360/:username\<close> matches only a path with a non-empty segment, so the
  router hands the handler no such parameter; the router is not part of the model.
\<close>

theorem username_required_first:
  "param = None \<or> param = Some [] \<Longrightarrow>
   get_code360 c param now p now' =
     ([], c, \<lparr> status_code = 400, body = ErrorBody (js ''Username is required'') \<rparr>)"
  by (auto simp: get_code360_def username_required_def)

text \<open>
  C10.  When a request reaches the scrape and the fetcher throws, the handler answers with
  the error response (408, 404 or 500), the cache afterwards is the cache before, no
  \<open>cache.set\<close> took place, and a later request for the same name scrapes again.
\<close>

theorem failure_leaves_cache:
  assumes "get_code360 c (Some name) now p now' = (evs, c', r)"
    and "ScrapeCode360 name \<in> set evs"
    and "snd (scrapeCode360 name p) = Inl e"
  shows "c' = c \<and> r = error_response e \<and> status_code r \<in> {408, 404, 500} \<and>
         CacheSet (cacheKey name) \<notin> set evs \<and>
         (now \<le> t2 \<longrightarrow>
            ScrapeCode360 name \<in> set (fst (get_code360 c' (Some name) t2 p2 t2')))"
proof -
  have nm: "name \<noteq> []" "cache_miss c name now"
    using get_code360_scraped [of name c now p now'] assms(1,2) by simp_all
  obtain sevs where sc: "scrapeCode360 name p = (sevs, Inl e)"
    using assms(3) by (cases "scrapeCode360 name p") auto
  have "get_code360 c (Some name) now p now' =
      ([CacheGet (cacheKey name), ScrapeCode360 name] @ sevs @ [ConsoleError], c, error_response e)"
    using nm sc by (simp add: get_code360_miss scrape_and_store_def)
  then have res: "evs = [CacheGet (cacheKey name), ScrapeCode360 name] @ sevs @ [ConsoleError]"
    "c' = c" "r = error_response e"
    using assms(1) by simp_all
  have "CacheSet (cacheKey name) \<notin> set sevs"
    using scrape_events_no_cache [of "cacheKey name" name p] sc by simp
  then have noset: "CacheSet (cacheKey name) \<notin> set evs" using res(1) by simp
  have later: "ScrapeCode360 name \<in> set (fst (get_code360 c (Some name) t2 p2 t2'))"
    if "now \<le> t2"
  proof -
    have "cache_miss c name t2"
      using nm(2) that by (auto simp: cache_miss_def split: option.splits)
    then show ?thesis using nm(1) by (simp add: get_code360_miss scrape_and_store_events)
  qed
  show ?thesis using res noset later error_response_status [of e] by simp
qed

section \<open>The endpoint on the example pages\<close>

lemma codushan_formatted: "format_response (js ''Codushan'') codushan_stats = codushan_response"
  by (simp add: format_response_fields codushan_stats_def codushan_response_def num_or_def
      falsy_num_def str_or_null_def falsy_str_def)

lemma scrapeCode360_codushan:
  "snd (scrapeCode360 (js ''Codushan'') (loaded codushan_dom)) = Inr codushan_stats"
  by (simp add: scrapeCode360_result scrape_codushan)

lemma slow_page_throws:
  "snd (scrapeCode360 (js ''nobody'') slow_page) =
     Inl (JsError (js ''Page element not found or timed out: '' @ js ''timeout 10000ms exceeded''))"
proof -
  have "snd (scrapeCode360Puppeteer (js ''nobody'') slow_page) =
     Inl (JsError (js ''Page element not found or timed out: '' @
       message (JsError (js ''timeout 10000ms exceeded''))))"
    by (rule scrape_wait_escalated)
       (simp_all add: slow_page_def loaded_def timeout_in_message)
  then show ?thesis by (simp add: scrapeCode360_result)
qed

lemma codushan_cache_lookup:
  "codushan_cache (cacheKey (js ''Codushan'')) =
     Some \<lparr> data = codushan_response, timestamp = 5000 \<rparr>"
  "codushan_cache (cacheKey (js ''nobody'')) = None"
  by (simp_all add: codushan_cache_def cacheKey_inj) (simp add: js_def)

theorem cache_contract_witness:
  "js ''Codushan'' \<noteq> [] \<and> cache_miss Map.empty (js ''Codushan'') 1000 \<and>
   snd (scrapeCode360 (js ''Codushan'') (loaded codushan_dom)) = Inr codushan_stats \<and>
   snd (get_code360 Map.empty (Some (js ''Codushan'')) 1000 (loaded codushan_dom) 5000) =
     (codushan_cache, \<lparr> status_code = 200, body = ProfileBody codushan_response \<rparr>) \<and>
   ScrapeCode360 (js ''Codushan'') \<in>
     set (fst (get_code360 Map.empty (Some (js ''Codushan'')) 1000 (loaded codushan_dom) 5000)) \<and>
   (604999 :: int) - 5000 < 600 * 1000 \<and>
   get_code360 codushan_cache (Some (js ''Codushan'')) 604999 slow_page 605000 =
     ([CacheGet (cacheKey (js ''Codushan''))], codushan_cache,
      \<lparr> status_code = 200, body = ProfileBody codushan_response \<rparr>) \<and>
   ScrapeCode360 (js ''Codushan'') \<in>
     set (fst (get_code360 (fst (clear_cache codushan_cache)) (Some (js ''Codushan''))
       604999 slow_page 605000))"
proof -
  define evs where "evs = fst (scrapeCode360 (js ''Codushan'') (loaded codushan_dom))"
  have n: "js ''Codushan'' \<noteq> []" by simp
  have m: "cache_miss Map.empty (js ''Codushan'') 1000" by (simp add: cache_miss_def)
  have s: "scrapeCode360 (js ''Codushan'') (loaded codushan_dom) = (evs, Inr codushan_stats)"
    unfolding evs_def using scrapeCode360_codushan by (metis prod.collapse)
  have 1: "get_code360 Map.empty (Some (js ''Codushan'')) 1000 (loaded codushan_dom) 5000 =
      ([CacheGet (cacheKey (js ''Codushan'')), ScrapeCode360 (js ''Codushan'')] @ evs @
       [CacheSet (cacheKey (js ''Codushan''))],
       codushan_cache, \<lparr> status_code = 200, body = ProfileBody codushan_response \<rparr>)"
    using n m s
      cache_contract [where name = "js ''Codushan''" and c = Map.empty and ?t1.0 = 1000
        and ?p1.0 = "loaded codushan_dom" and evs = evs and st = codushan_stats and ?t1' = 5000]
    by (simp add: codushan_formatted codushan_cache_def)
  have t: "(604999 :: int) - 5000 < 600 * 1000" by simp
  have 2: "get_code360 codushan_cache (Some (js ''Codushan'')) 604999 slow_page 605000 =
     ([CacheGet (cacheKey (js ''Codushan''))], codushan_cache,
      \<lparr> status_code = 200, body = ProfileBody codushan_response \<rparr>)"
    using 1 t
      cache_contract [where name = "js ''Codushan''" and c = Map.empty and ?t1.0 = 1000
        and ?p1.0 = "loaded codushan_dom" and ?t1' = 5000 and ?c1.0 = codushan_cache
        and ?r1.0 = "\<lparr> status_code = 200, body = ProfileBody codushan_response \<rparr>"
        and ?t2.0 = 604999 and ?p2.0 = slow_page and ?t2' = 605000
        and ?evs1.0 = "[CacheGet (cacheKey (js ''Codushan'')), ScrapeCode360 (js ''Codushan'')] @
          evs @ [CacheSet (cacheKey (js ''Codushan''))]"]
    by simp
  have 3: "ScrapeCode360 (js ''Codushan'') \<in>
     set (fst (get_code360 (fst (clear_cache codushan_cache)) (Some (js ''Codushan''))
       604999 slow_page 605000))"
    using n cache_contract [where name = "js ''Codushan''" and c = codushan_cache] by blast
  show ?thesis using n m scrapeCode360_codushan 1 2 3 by simp
qed

theorem username_required_first_witness:
  "get_code360 codushan_cache (Some []) 1000 slow_page 2000 =
     ([], codushan_cache,
      \<lparr> status_code = 400, body = ErrorBody (js ''Username is required'') \<rparr>) \<and>
   get_code360 codushan_cache None 1000 slow_page 2000 =
     ([], codushan_cache,
      \<lparr> status_code = 400, body = ErrorBody (js ''Username is required'') \<rparr>)"
  using username_required_first [of "Some []" codushan_cache 1000 slow_page 2000]
    username_required_first [of None codushan_cache 1000 slow_page 2000]
  by simp

theorem failure_leaves_cache_witness:
  "ScrapeCode360 (js ''nobody'') \<in>
     set (fst (get_code360 codushan_cache (Some (js ''nobody'')) 1000 slow_page 2000)) \<and>
   snd (scrapeCode360 (js ''nobody'') slow_page) =
     Inl (JsError (js ''Page element not found or timed out: '' @ js ''timeout 10000ms exceeded'')) \<and>
   snd (get_code360 codushan_cache (Some (js ''nobody'')) 1000 slow_page 2000) =
     (codushan_cache,
      \<lparr> status_code = 408,
        body = ErrorBody (js ''Request timeout - Code360 profile took too long to load or element not found.'') \<rparr>) \<and>
   (1000 :: int) \<le> 3000 \<and>
   ScrapeCode360 (js ''nobody'') \<in>
     set (fst (get_code360 codushan_cache (Some (js ''nobody'')) 3000 (loaded blank_dom) 4000))"
proof -
  define g where "g = get_code360 codushan_cache (Some (js ''nobody'')) 1000 slow_page 2000"
  have miss: "cache_miss codushan_cache (js ''nobody'') 1000"
    by (simp add: cache_miss_def codushan_cache_lookup)
  have a: "ScrapeCode360 (js ''nobody'') \<in> set (fst g)"
    unfolding g_def using miss by (simp add: get_code360_miss scrape_and_store_events)
  have g: "get_code360 codushan_cache (Some (js ''nobody'')) 1000 slow_page 2000 =
      (fst g, fst (snd g), snd (snd g))"
    by (simp add: g_def)
  have tm: "includes_js (message (JsError (js ''Page element not found or timed out: '' @
      js ''timeout 10000ms exceeded''))) (js ''timeout'')"
    using includes_js_append [OF timeout_in_message] by simp
  note r = failure_leaves_cache [OF g a slow_page_throws, of 3000 "loaded blank_dom" 4000]
  have "snd g = (codushan_cache,
      \<lparr> status_code = 408,
        body = ErrorBody (js ''Request timeout - Code360 profile took too long to load or element not found.'') \<rparr>)"
    using r error_response_cases(1) [OF tm] by (metis prod.collapse)
  then show ?thesis using a r slow_page_throws by (simp add: g_def)
qed

section \<open>Badge extraction\<close>

lemma not_space_word: "is_word c \<Longrightarrow> \<not> is_space c"
  unfolding is_word_def is_digit_def is_space_def
  by (auto simp: word_le_nat_alt)

lemma match_number_word_iff: "match_number_word s \<longleftrightarrow> number_then_word s"
proof
  assume m: "match_number_word s"
  define ds where "ds = takeWhile is_digit s"
  define r where "r = dropWhile is_digit s"
  define ws where "ws = takeWhile is_space r"
  define r1 where "r1 = dropWhile is_space r"
  from m have c: "ds \<noteq> []" "ws \<noteq> []" "r1 \<noteq> []" "is_word (hd r1)"
    by (simp_all add: match_number_word_def Let_def ds_def r_def ws_def r1_def)
  have "s = ds @ r" by (simp add: ds_def r_def)
  moreover have "r = ws @ r1" by (simp add: ws_def r1_def)
  moreover have "r1 = hd r1 # tl r1" using c(3) by simp
  ultimately have s: "s = ds @ ws @ hd r1 # tl r1" by simp
  have d: "\<forall>c \<in> set ds. is_digit c" unfolding ds_def by (auto dest: set_takeWhileD)
  have w: "all_space ws" unfolding ws_def all_space_def by (auto dest: set_takeWhileD)
  show "number_then_word s"
    unfolding number_then_word_def using s c d w by blast
next
  assume "number_then_word s"
  then obtain ds ws w rest where s: "s = ds @ ws @ w # rest" and ds: "ds \<noteq> []"
    and dd: "\<forall>c \<in> set ds. is_digit c" and ws: "ws \<noteq> []" and sp: "all_space ws"
    and w: "is_word w"
    unfolding number_then_word_def by blast
  obtain x xs where x: "ws = x # xs" using ws by (cases ws) auto
  have xs: "is_space x" using sp x by (simp add: all_space_def)
  then have xd: "\<not> is_digit x" using not_space_digit by blast
  have t1: "takeWhile is_digit s = ds"
    using dd xd by (simp add: s x takeWhile_append2)
  have d1: "dropWhile is_digit s = ws @ w # rest"
    using dd xd by (simp add: s x dropWhile_append2)
  have nw: "\<not> is_space w" using w by (rule not_space_word)
  have ta: "takeWhile is_space (ws @ w # rest) = ws @ takeWhile is_space (w # rest)"
    using sp by (intro takeWhile_append2) (simp add: all_space_def)
  have tb: "takeWhile is_space (w # rest) = []" using nw by simp
  have t2: "takeWhile is_space (ws @ w # rest) = ws"
    unfolding ta tb by simp
  have da: "dropWhile is_space (ws @ w # rest) = dropWhile is_space (w # rest)"
    using sp by (intro dropWhile_append2) (simp add: all_space_def)
  have db: "dropWhile is_space (w # rest) = w # rest" using nw by simp
  have d2: "dropWhile is_space (ws @ w # rest) = w # rest"
    unfolding da db by simp
  show "match_number_word s"
    unfolding match_number_word_def Let_def t1 d1 t2 d2 using ds ws w by simp
qed

lemma badge_test_iff:
  "badge_test t \<longleftrightarrow> number_then_word (trim t) \<and> contains_keyword (trim t)"
  unfolding badge_test_def Let_def match_number_word_iff contains_keyword_def includes_js_iff
  by blast

lemma set_difficulty_badge: "raw_stats.badge (set_difficulty r x) = raw_stats.badge r"
  by (cases "(r, x)" rule: set_difficulty.cases) (simp_all add: Let_def)

lemma foldl_set_difficulty_badge:
  "raw_stats.badge (foldl set_difficulty r xs) = raw_stats.badge r"
  by (induction xs arbitrary: r) (simp_all add: set_difficulty_badge)

lemma extract_stats_badge: "raw_stats.badge (extract_stats d) = find_badge (div_elements d)"
proof -
  define r where "r = extract_xp d (extract_joined d (extract_streak d
       (extract_difficulty d (extract_total d (initial_result d)))))"
  have "raw_stats.badge r = None"
    unfolding r_def
    by (simp add: extract_xp_def extract_joined_def extract_streak_def extract_difficulty_def
        extract_total_def initial_result_def foldl_set_difficulty_badge Let_def
        split: option.splits prod.splits)
  then show ?thesis
    by (simp add: extract_stats_def r_def [symmetric] extract_badge_def split: option.splits)
qed

text \<open>
  C8.  The badge of the extracted record is the result of the scan over the \<open>div\<close> elements
  in document order.  The scan gives null exactly when no element's trimmed text both
  begins with a number, white space and a word character and contains, ignoring letter
  case, one of \<open>achiever\<close>, \<open>badge\<close>, \<open>rank\<close>; otherwise it gives the trimmed text of the first
  element that does.
\<close>

theorem badge_first_match:
  "raw_stats.badge (extract_stats d) = find_badge (div_elements d) \<and>
   (find_badge divs = None \<longleftrightarrow>
      (\<forall>t \<in> set divs. \<not> (number_then_word (trim t) \<and> contains_keyword (trim t)))) \<and>
   (find_badge divs = Some b \<longleftrightarrow>
      (\<exists>i < length divs. b = trim (divs ! i) \<and>
         number_then_word (trim (divs ! i)) \<and> contains_keyword (trim (divs ! i)) \<and>
         (\<forall>j < i. \<not> (number_then_word (trim (divs ! j)) \<and> contains_keyword (trim (divs ! j))))))"
proof -
  have "find_badge divs = None \<longleftrightarrow> find badge_test divs = None"
    by (simp add: find_badge_def split: option.splits)
  then have n: "find_badge divs = None \<longleftrightarrow> (\<forall>t \<in> set divs. \<not> badge_test t)"
    by (auto simp: find_None_iff)
  have "find_badge divs = Some b \<longleftrightarrow> (\<exists>x. find badge_test divs = Some x \<and> b = trim x)"
    by (auto simp: find_badge_def split: option.splits)
  then have s: "find_badge divs = Some b \<longleftrightarrow>
      (\<exists>i < length divs. b = trim (divs ! i) \<and> badge_test (divs ! i) \<and>
         (\<forall>j < i. \<not> badge_test (divs ! j)))"
    by (auto simp: find_Some_iff)
  show ?thesis
    using n s extract_stats_badge [of d] unfolding badge_test_iff by simp
qed

lemma find_badge_codushan:
  "find_badge [js ''Codushan'', js '' 5 Star Achiever '', js ''2 Gold Badge''] =
     Some (js ''5 Star Achiever'')"
  by (simp add: extract_defs)

lemma find_badge_none: "find_badge [js ''Codushan'', js ''120 solved'', js ''Top rank''] = None"
  by (simp add: extract_defs)

theorem badge_first_match_witness:
  "(\<exists>i < length [js ''Codushan'', js '' 5 Star Achiever '', js ''2 Gold Badge''].
      js ''5 Star Achiever'' = trim ([js ''Codushan'', js '' 5 Star Achiever '', js ''2 Gold Badge''] ! i) \<and>
      number_then_word (trim ([js ''Codushan'', js '' 5 Star Achiever '', js ''2 Gold Badge''] ! i)) \<and>
      contains_keyword (trim ([js ''Codushan'', js '' 5 Star Achiever '', js ''2 Gold Badge''] ! i)) \<and>
      (\<forall>j < i. \<not> (number_then_word (trim ([js ''Codushan'', js '' 5 Star Achiever '', js ''2 Gold Badge''] ! j)) \<and>
                   contains_keyword (trim ([js ''Codushan'', js '' 5 Star Achiever '', js ''2 Gold Badge''] ! j))))) \<and>
   find_badge [js ''Codushan'', js '' 5 Star Achiever '', js ''2 Gold Badge''] =
     Some (js ''5 Star Achiever'') \<and>
   \<not> (number_then_word (trim (js ''Codushan'')) \<and> contains_keyword (trim (js ''Codushan''))) \<and>
   \<not> (number_then_word (trim (js ''120 solved'')) \<and> contains_keyword (trim (js ''120 solved''))) \<and>
   \<not> (number_then_word (trim (js ''Top rank'')) \<and> contains_keyword (trim (js ''Top rank''))) \<and>
   find_badge [js ''Codushan'', js ''120 solved'', js ''Top rank''] = None \<and>
   raw_stats.badge (extract_stats codushan_dom) = Some (js ''5 Star Achiever'')"
proof -
  have d: "div_elements codushan_dom = [js ''Codushan'', js '' 5 Star Achiever '', js ''2 Gold Badge'']"
    by (simp add: codushan_dom_def)
  show ?thesis
    using find_badge_codushan find_badge_none d
      badge_first_match [of codushan_dom
        "[js ''Codushan'', js '' 5 Star Achiever '', js ''2 Gold Badge'']" "js ''5 Star Achiever''"]
      badge_first_match [of codushan_dom
        "[js ''Codushan'', js ''120 solved'', js ''Top rank'']" "js ''5 Star Achiever''"]
    by simp
qed

section \<open>Waits and error mapping on the example pages\<close>





end
